theory Spec2Isabelle
  imports
    Complex_Main
    "HOL-Library.List_Lexorder"
    "HOL-Library.Product_Lexorder"
    "HOL-Library.AList"
begin

section \<open>Code2Markdown: a shallow embedding of the converter\<close>

text \<open>
  The development follows \<^verbatim>\<open>src/utils.py\<close>, \<^verbatim>\<open>src/config.py\<close> and
  \<^verbatim>\<open>src/code2md.py\<close>. Python names are kept; a leading underscore is dropped
  (\<^verbatim>\<open>_is_project_directory\<close> is \<open>is_project_directory\<close>), because an Isabelle name
  cannot start with one.
\<close>

subsection \<open>Strings\<close>

text \<open>
  A Python \<^verbatim>\<open>str\<close> is a sequence of Unicode code points, so it is modelled as a list
  of code points. The literals of the source that are not ASCII (box-drawing glyphs,
  Chinese notices, the keys of the replacement table) are written as numbers.
\<close>

type_synonym str = "nat list"

definition ascii :: "string \<Rightarrow> str" where
  "ascii s = map of_char s"

text \<open>\<^verbatim>\<open>str(n)\<close> of an integer, as used by f-strings.\<close>

function str_nat :: "nat \<Rightarrow> str" where
  "str_nat n = (if n < 10 then [48 + n] else str_nat (n div 10) @ [48 + n mod 10])"
  by pat_completeness auto
termination
  by (relation "measure (\<lambda>n. n)") auto

declare str_nat.simps [simp del]

definition str_int :: "int \<Rightarrow> str" where
  "str_int i = (if i < 0 then ascii ''-'' @ str_nat (nat (- i)) else str_nat (nat i))"

text \<open>
  \<^verbatim>\<open>str.lower()\<close>. The mapping is Python's on every code point below 256 (the letters
  A to Z and the upper-case letters of Latin-1); above that the Unicode case tables are
  not modelled and the code point is left as it is.
\<close>

definition lower_cp :: "nat \<Rightarrow> nat" where
  "lower_cp c =
     (if (65 \<le> c \<and> c \<le> 90) \<or> (192 \<le> c \<and> c \<le> 222 \<and> c \<noteq> 215) then c + 32 else c)"

definition lower :: "str \<Rightarrow> str" where
  "lower s = map lower_cp s"

text \<open>\<^verbatim>\<open>str.rfind(c)\<close> for a single character: the last index of \<open>c\<close>, or -1.\<close>

fun rfind :: "str \<Rightarrow> nat \<Rightarrow> int" where
  "rfind [] c = - 1"
| "rfind (x # xs) c =
     (let r = rfind xs c in if 0 \<le> r then r + 1 else if x = c then 0 else - 1)"

text \<open>
  \<^verbatim>\<open>PurePath.suffix\<close> of a file name: the part from the last dot on, unless that dot
  is the first or the last character of the name.
\<close>

definition suffix :: "str \<Rightarrow> str" where
  "suffix nm =
     (let i = rfind nm 46
      in if 0 < i \<and> i < int (length nm) - 1 then drop (nat i) nm else [])"

text \<open>
  \<^verbatim>\<open>str.replace(old, new)\<close>: every non-overlapping occurrence, leftmost first. With an
  empty \<open>old\<close> Python puts \<open>new\<close> before every character and at the end.
\<close>

function replace_scan :: "str \<Rightarrow> str \<Rightarrow> str \<Rightarrow> str" where
  "replace_scan [] old new = []"
| "replace_scan (c # cs) old new =
     (if old \<noteq> [] \<and> take (length old) (c # cs) = old
      then new @ replace_scan (drop (length old) (c # cs)) old new
      else c # replace_scan cs old new)"
  by pat_completeness auto
termination
  by (relation "measure (\<lambda>(s, old, new). length s)") auto

definition replace :: "str \<Rightarrow> str \<Rightarrow> str \<Rightarrow> str" where
  "replace s old new =
     (if old = [] then new @ concat (map (\<lambda>c. c # new) s) else replace_scan s old new)"

text \<open>
  \<^verbatim>\<open>fnmatch.fnmatch(name, pattern)\<close> on a POSIX system (no case folding), for patterns
  made of literal characters, \<^verbatim>\<open>*\<close> (42) and \<^verbatim>\<open>?\<close> (63), which covers every pattern
  of the default configuration. Bracket classes are not modelled: \<^verbatim>\<open>[\<close> is matched
  literally.
\<close>

fun fnmatch :: "str \<Rightarrow> str \<Rightarrow> bool" where
  "fnmatch [] [] = True"
| "fnmatch (c # cs) [] = False"
| "fnmatch [] (p # ps) = (p = 42 \<and> fnmatch [] ps)"
| "fnmatch (c # cs) (p # ps) =
     (if p = 42 then fnmatch (c # cs) ps \<or> fnmatch cs (p # ps)
      else if p = 63 then fnmatch cs ps
      else c = p \<and> fnmatch cs ps)"

subsection \<open>File sizes (\<^verbatim>\<open>format_file_size\<close>)\<close>

text \<open>
  The source computes with a binary64 float: \<^verbatim>\<open>size = float(size_bytes)\<close>, then
  divides by 1024.0 while the value is at least 1024.0 and a larger unit is left. A
  binary64 float holds every integer below \<open>2 ^ 53\<close> exactly, and dividing by
  \<open>1024 = 2 ^ 10\<close> only changes the exponent, so for byte counts below \<open>2 ^ 53\<close> the
  computation has no rounding error: it is modelled with rationals. \<^verbatim>\<open>{size:.1f}\<close>
  prints the decimal with one fractional digit nearest to the exact value, a tie going to
  the even digit (\<open>round_half_even\<close>); \<open>format_1f\<close> is only reached with a value of at
  least 1. \<^verbatim>\<open>int(size)\<close> truncates towards zero.
\<close>

definition size_names :: "str list" where
  "size_names = [ascii ''B'', ascii ''KB'', ascii ''MB'', ascii ''GB'']"

function scale_loop :: "rat \<Rightarrow> nat \<Rightarrow> rat \<times> nat" where
  "scale_loop sz i =
     (if sz \<ge> 1024 \<and> i < length size_names - 1
      then scale_loop (sz / 1024) (i + 1)
      else (sz, i))"
  by pat_completeness auto
termination
  by (relation "measure (\<lambda>(sz, i). length size_names - 1 - i)") auto

declare scale_loop.simps [simp del]

definition round_half_even :: "rat \<Rightarrow> int" where
  "round_half_even x =
     (let f = \<lfloor>x\<rfloor>; r = x - of_int f
      in if r < 1 / 2 then f else if 1 / 2 < r then f + 1
         else if even f then f else f + 1)"

definition format_1f :: "rat \<Rightarrow> str" where
  "format_1f x =
     (let t = round_half_even (x * 10)
      in str_int (t div 10) @ ascii ''.'' @ str_int (t mod 10))"

definition int_of_float :: "rat \<Rightarrow> int" where
  "int_of_float x = (if 0 \<le> x then \<lfloor>x\<rfloor> else \<lceil>x\<rceil>)"

definition format_file_size :: "int \<Rightarrow> str" where
  "format_file_size size_bytes =
     (if size_bytes = 0 then ascii ''0 B''
      else
        let (sz, i) = scale_loop (of_int size_bytes) 0
        in if i = 0 then str_int (int_of_float sz) @ ascii '' '' @ size_names ! i
           else format_1f sz @ ascii '' '' @ size_names ! i)"

subsection \<open>The file system\<close>

text \<open>
  A directory tree as the converter sees it: a regular file with its name and the size
  \<^verbatim>\<open>stat\<close> reports, a directory with its name and its entries in the order
  \<^verbatim>\<open>iterdir\<close> yields them, and a directory that cannot be listed
  (\<^verbatim>\<open>iterdir\<close> raises \<^verbatim>\<open>PermissionError\<close>). Symbolic links and special files
  are not modelled. A path is the list of its parts.
\<close>

datatype node = File str nat | Dir str "node list" | Unreadable str

type_synonym path = "str list"

datatype error =
    FileNotFoundError path
  | PermissionError path
  | NotADirectoryError path
  | Exception str

fun name_of :: "node \<Rightarrow> str" where
  "name_of (File n s) = n"
| "name_of (Dir n cs) = n"
| "name_of (Unreadable n) = n"

fun is_dir :: "node \<Rightarrow> bool" where
  "is_dir (File n s) = False"
| "is_dir (Dir n cs) = True"
| "is_dir (Unreadable n) = True"

fun is_file :: "node \<Rightarrow> bool" where
  "is_file (File n s) = True"
| "is_file (Dir n cs) = False"
| "is_file (Unreadable n) = False"

fun iterdir :: "path \<Rightarrow> node \<Rightarrow> error + node list" where
  "iterdir p (Dir n cs) = Inr cs"
| "iterdir p (Unreadable n) = Inl (PermissionError p)"
| "iterdir p (File n s) = Inl (NotADirectoryError p)"

text \<open>
  \<^verbatim>\<open>Path.rglob('*')\<close>: for every directory of the tree, parents before children, all
  of its entries. The library swallows the error of a directory it cannot list, and
  yields nothing for it, nor for a path that is not a directory.
\<close>

fun rglob :: "node \<Rightarrow> node list" where
  "rglob (Dir n cs) = cs @ concat (map rglob cs)"
| "rglob (File n s) = []"
| "rglob (Unreadable n) = []"

subsection \<open>Configuration (\<^verbatim>\<open>config.py\<close>)\<close>

record Config =
  code_base_dir :: path
  markdown_base_dir :: path
  code_extensions :: "str set"
  project_extensions :: "str set"
  ignore_files :: "str set"
  ignore_dirs :: "str set"
  max_file_size :: int
  include_file_content :: bool
  include_file_stats :: bool
  include_project_structure :: bool

text \<open>
  \<^verbatim>\<open>Config()\<close> with no argument: the field defaults, and the four sets that
  \<^verbatim>\<open>__post_init__\<close> puts in place of \<^verbatim>\<open>None\<close>.
\<close>

definition default_code_extensions :: "str set" where
  "default_code_extensions =
     {ascii ''.c'', ascii ''.h'', ascii ''.cpp'', ascii ''.hpp'', ascii ''.cc'', ascii ''.cxx'',
      ascii ''.py'', ascii ''.java'', ascii ''.js'', ascii ''.ts'', ascii ''.cs'',
      ascii ''.go'', ascii ''.rs'', ascii ''.php'', ascii ''.rb'', ascii ''.swift'',
      ascii ''.kt'', ascii ''.scala'', ascii ''.clj'', ascii ''.hs'', ascii ''.ml'',
      ascii ''.asm'', ascii ''.s'', ascii ''.a51''}"

definition default_project_extensions :: "str set" where
  "default_project_extensions =
     {ascii ''.uvproj'', ascii ''.uvopt'', ascii ''.uvgui'', ascii ''.sln'', ascii ''.vcxproj'',
      ascii ''.pro'', ascii ''.qbs'', ascii ''.cmake'', ascii ''.mk'', ascii ''.makefile'',
      ascii ''.json'', ascii ''.xml'', ascii ''.yml'', ascii ''.yaml'', ascii ''.toml'',
      ascii ''.cfg'', ascii ''.conf'', ascii ''.ini''}"

definition default_ignore_files :: "str set" where
  "default_ignore_files =
     {ascii ''.DS_Store'', ascii ''Thumbs.db'', ascii ''.gitignore'',
      ascii ''__pycache__'', ascii ''*.pyc'', ascii ''*.pyo'', ascii ''*.pyd'',
      ascii ''.vscode'', ascii ''.idea'', ascii ''.vs''}"

definition default_ignore_dirs :: "str set" where
  "default_ignore_dirs =
     {ascii ''__pycache__'', ascii ''.git'', ascii ''.svn'', ascii ''.hg'',
      ascii ''node_modules'', ascii ''.vscode'', ascii ''.idea'', ascii ''.vs'',
      ascii ''bin'', ascii ''obj'', ascii ''build'', ascii ''dist'', ascii ''target''}"

definition post_init ::
  "path \<Rightarrow> path \<Rightarrow> str set option \<Rightarrow> str set option \<Rightarrow> str set option \<Rightarrow> str set option
     \<Rightarrow> int \<Rightarrow> bool \<Rightarrow> bool \<Rightarrow> bool \<Rightarrow> Config" where
  "post_init cb mb ce pe igf igd mx ic ist ips =
     \<lparr>code_base_dir = cb, markdown_base_dir = mb,
      code_extensions = (case ce of None \<Rightarrow> default_code_extensions | Some s \<Rightarrow> s),
      project_extensions = (case pe of None \<Rightarrow> default_project_extensions | Some s \<Rightarrow> s),
      ignore_files = (case igf of None \<Rightarrow> default_ignore_files | Some s \<Rightarrow> s),
      ignore_dirs = (case igd of None \<Rightarrow> default_ignore_dirs | Some s \<Rightarrow> s),
      max_file_size = mx, include_file_content = ic, include_file_stats = ist,
      include_project_structure = ips\<rparr>"

definition default_config :: Config where
  "default_config =
     post_init [ascii ''Code''] [ascii ''Markdown''] None None None None (1024 * 1024)
       True True True"

subsection \<open>Ignore rules (\<^verbatim>\<open>utils.py\<close>)\<close>

definition should_ignore_file :: "str \<Rightarrow> str set \<Rightarrow> bool" where
  "should_ignore_file file_name ignore_patterns =
     (\<exists>pattern \<in> ignore_patterns. fnmatch file_name pattern)"

definition should_ignore_dir :: "str \<Rightarrow> str set \<Rightarrow> bool" where
  "should_ignore_dir dir_name ignore_patterns = (dir_name \<in> ignore_patterns)"

subsection \<open>The converter (\<^verbatim>\<open>code2md.py\<close>)\<close>

record FileStats =
  code_files :: nat
  header_files :: nat
  project_files :: nat
  other_files :: nat
  total_size :: nat

record ProjectInfo =
  name :: str
  source_path :: path
  target_path :: path
  generated_time :: nat
  stats :: FileStats

record Code2MarkdownConverter =
  config :: Config
  root_path :: path

text \<open>
  \<^verbatim>\<open>_is_project_directory\<close>: the loop over \<^verbatim>\<open>path.rglob('*')\<close> with its two flags
  and its early return. The \<^verbatim>\<open>except\<close> branch of the source has no counterpart,
  because \<open>rglob\<close> raises nothing here.
\<close>

fun is_project_loop :: "Config \<Rightarrow> node list \<Rightarrow> bool \<Rightarrow> bool \<Rightarrow> bool" where
  "is_project_loop c [] has_code_files has_project_files = False"
| "is_project_loop c (item # items) has_code_files has_project_files =
     (if is_file item then
        let ext = lower (suffix (name_of item));
            has_code_files' = (if ext \<in> code_extensions c then True else has_code_files);
            has_project_files' =
              (if ext \<notin> code_extensions c \<and> ext \<in> project_extensions c then True
               else has_project_files)
        in if has_code_files' \<or> has_project_files' then True
           else is_project_loop c items has_code_files' has_project_files'
      else is_project_loop c items has_code_files has_project_files)"

definition is_project_directory :: "Code2MarkdownConverter \<Rightarrow> node \<Rightarrow> bool" where
  "is_project_directory self p = is_project_loop (config self) (rglob p) False False"

text \<open>
  \<^verbatim>\<open>_find_project_directories\<close>. A \<^verbatim>\<open>Path\<close> the converter returns is modelled by its
  parts together with the directory found there. \<^verbatim>\<open>iterdir\<close> on a directory that
  cannot be listed raises, and nothing in the discovery catches it.
\<close>

fun find_project_directories ::
    "Code2MarkdownConverter \<Rightarrow> path \<Rightarrow> node \<Rightarrow> error + (path \<times> node) list"
  and find_in_subdirs ::
    "Code2MarkdownConverter \<Rightarrow> path \<Rightarrow> node list \<Rightarrow> error + (path \<times> node) list" where
  "find_project_directories self p (Dir n cs) =
     (if is_project_directory self (Dir n cs) then Inr [(p, Dir n cs)]
      else find_in_subdirs self p cs)"
| "find_project_directories self p (Unreadable n) =
     (if is_project_directory self (Unreadable n) then Inr [(p, Unreadable n)]
      else Inl (PermissionError p))"
| "find_project_directories self p (File n s) =
     (if is_project_directory self (File n s) then Inr [(p, File n s)]
      else Inl (NotADirectoryError p))"
| "find_in_subdirs self p [] = Inr []"
| "find_in_subdirs self p (subdir # rest) =
     (if is_dir subdir \<and> \<not> should_ignore_dir (name_of subdir) (ignore_dirs (config self)) then
        if is_project_directory self subdir then
          (case find_in_subdirs self p rest of
             Inl e \<Rightarrow> Inl e
           | Inr project_dirs \<Rightarrow> Inr ((p @ [name_of subdir], subdir) # project_dirs))
        else
          (case find_project_directories self (p @ [name_of subdir]) subdir of
             Inl e \<Rightarrow> Inl e
           | Inr sub_projects \<Rightarrow>
               (case find_in_subdirs self p rest of
                  Inl e \<Rightarrow> Inl e
                | Inr project_dirs \<Rightarrow> Inr (sub_projects @ project_dirs)))
      else find_in_subdirs self p rest)"

text \<open>
  \<^verbatim>\<open>discover_projects\<close>. The second argument is what the file system holds at
  \<^verbatim>\<open>root_path / code_base_dir\<close>: \<open>None\<close> when the path does not exist.
\<close>

fun discover_loop ::
    "Code2MarkdownConverter \<Rightarrow> path \<Rightarrow> node list \<Rightarrow> error + (path \<times> node) list" where
  "discover_loop self code_dir [] = Inr []"
| "discover_loop self code_dir (item # items) =
     (if is_dir item \<and> \<not> should_ignore_dir (name_of item) (ignore_dirs (config self)) then
        (case find_project_directories self (code_dir @ [name_of item]) item of
           Inl e \<Rightarrow> Inl e
         | Inr project_dirs \<Rightarrow>
             (case discover_loop self code_dir items of
                Inl e \<Rightarrow> Inl e
              | Inr projects \<Rightarrow> Inr (project_dirs @ projects)))
      else discover_loop self code_dir items)"

definition discover_projects ::
    "Code2MarkdownConverter \<Rightarrow> node option \<Rightarrow> error + (path \<times> node) list" where
  "discover_projects self fs =
     (let code_dir = root_path self @ code_base_dir (config self)
      in case fs of
           None \<Rightarrow> Inl (FileNotFoundError code_dir)
         | Some d \<Rightarrow>
             (case iterdir code_dir d of
                Inl e \<Rightarrow> Inl e
              | Inr items \<Rightarrow> discover_loop self code_dir items))"

text \<open>
  \<^verbatim>\<open>extract_project_name_from_path\<close> and \<^verbatim>\<open>normalize_project_name\<close>.
  \<^verbatim>\<open>Path.name\<close> is the last part, and empty for the root and for the empty path.
\<close>

definition path_name :: "path \<Rightarrow> str" where
  "path_name p = (if p = [] \<or> p = [ascii ''/''] then [] else last p)"

definition startswith :: "str \<Rightarrow> str \<Rightarrow> bool" where
  "startswith s pre = (take (length pre) s = pre)"

fun meaningful_loop :: "str list \<Rightarrow> str list \<Rightarrow> str list" where
  "meaningful_loop [] meaningful_parts = meaningful_parts"
| "meaningful_loop (part # rest) meaningful_parts =
     (let meaningful_parts' =
            (if \<not> startswith part (ascii ''.'') \<and> part \<notin> set [ascii ''Code'', ascii ''Markdown'']
             then meaningful_parts @ [part] else meaningful_parts)
      in if length meaningful_parts' \<ge> 2 then meaningful_parts'
         else meaningful_loop rest meaningful_parts')"

definition extract_project_name_from_path :: "path \<Rightarrow> str" where
  "extract_project_name_from_path p =
     (let meaningful_parts = meaningful_loop (rev p) []
      in case meaningful_parts of
           part # _ \<Rightarrow> part
         | [] \<Rightarrow> path_name p)"

text \<open>
  \<^verbatim>\<open>re.sub(r'_\d{8}$', '', name)\<close>. \<^verbatim>\<open>$\<close> matches at the end of the string and also
  just before a newline that ends it, so at most one match exists. \<^verbatim>\<open>\d\<close> is taken as
  the digits 0 to 9 (the only decimal digits below code point 256).
\<close>

definition is_digit :: "nat \<Rightarrow> bool" where
  "is_digit c = (48 \<le> c \<and> c \<le> 57)"

definition date_suffix :: "str \<Rightarrow> bool" where
  "date_suffix s = (length s = 9 \<and> hd s = 95 \<and> list_all is_digit (tl s))"

definition normalize_project_name :: "str \<Rightarrow> str" where
  "normalize_project_name nm =
     (let n = length nm
      in if 9 \<le> n \<and> date_suffix (drop (n - 9) nm) then take (n - 9) nm
         else if 10 \<le> n \<and> last nm = 10 \<and> date_suffix (take 9 (drop (n - 10) nm))
              then take (n - 10) nm @ [10]
         else nm)"

text \<open>
  \<^verbatim>\<open>analyze_project\<close>: one step of the loop over \<^verbatim>\<open>rglob('*')\<close>, then the whole
  analysis. \<open>clock\<close> is the time \<^verbatim>\<open>datetime.now()\<close> reads while that project is analysed.
\<close>

definition header_extensions :: "str set" where
  "header_extensions = {ascii ''.h'', ascii ''.hpp'', ascii ''.hh''}"

fun analyze_step :: "Config \<Rightarrow> FileStats \<Rightarrow> node \<Rightarrow> FileStats" where
  "analyze_step c st (File n sz) =
     (if \<not> should_ignore_file n (ignore_files c) then
        let st1 = st\<lparr>total_size := total_size st + sz\<rparr>;
            ext = lower (suffix n)
        in if ext \<in> code_extensions c then
             if ext \<in> header_extensions then st1\<lparr>header_files := header_files st1 + 1\<rparr>
             else st1\<lparr>code_files := code_files st1 + 1\<rparr>
           else if ext \<in> project_extensions c then st1\<lparr>project_files := project_files st1 + 1\<rparr>
           else st1\<lparr>other_files := other_files st1 + 1\<rparr>
      else st)"
| "analyze_step c st (Dir n cs) = st"
| "analyze_step c st (Unreadable n) = st"

definition empty_stats :: FileStats where
  "empty_stats =
     \<lparr>code_files = 0, header_files = 0, project_files = 0, other_files = 0, total_size = 0\<rparr>"

definition analyze_stats :: "Config \<Rightarrow> node \<Rightarrow> FileStats" where
  "analyze_stats c project = foldl (analyze_step c) empty_stats (rglob project)"

definition analyze_project ::
    "Code2MarkdownConverter \<Rightarrow> (path \<Rightarrow> nat) \<Rightarrow> path \<times> node \<Rightarrow> ProjectInfo" where
  "analyze_project self clock project =
     (let project_name = extract_project_name_from_path (fst project);
          normalized_name = normalize_project_name project_name;
          target_file =
            root_path self @ markdown_base_dir (config self) @ [normalized_name @ ascii ''.md'']
      in \<lparr>name = project_name, source_path = fst project, target_path = target_file,
          generated_time = clock (fst project),
          stats = analyze_stats (config self) (snd project)\<rparr>)"






text \<open>
  \<^verbatim>\<open>generate_index\<close>: the lines of INDEX.md, and the file written (its path and its
  content). \<open>timestamp\<close> is the text \<^verbatim>\<open>strftime\<close> gives for the current time.
  \<^verbatim>\<open>sorted\<close> is stable, as \<open>sort_key\<close> is.
\<close>

fun index_entries :: "ProjectInfo list \<Rightarrow> str list \<Rightarrow> str list" where
  "index_entries [] lines = lines"
| "index_entries (project # rest) lines =
     (let md_filename = normalize_project_name (name project) @ ascii ''.md''
      in index_entries rest
           (lines @ [ascii ''- ['' @ name project @ ascii '']('' @ md_filename @ ascii '')'']))"

definition index_title :: str where
  "index_title = ascii ''# Code2Markdown '' @ [0x9879, 0x76EE, 0x7D22, 0x5F15]"

definition index_time_label :: str where
  "index_time_label = ascii ''**'' @ [0x751F, 0x6210, 0x65F6, 0x95F4] @ ascii ''**: ''"

definition index_count_label :: str where
  "index_count_label = ascii ''**'' @ [0x9879, 0x76EE, 0x603B, 0x6570] @ ascii ''**: ''"

definition index_list_heading :: str where
  "index_list_heading = ascii ''## '' @ [0x9879, 0x76EE, 0x5217, 0x8868]"

definition index_lines :: "str \<Rightarrow> ProjectInfo list \<Rightarrow> str list" where
  "index_lines timestamp projects =
     (let lines = [index_title, [], index_time_label @ timestamp,
                   index_count_label @ str_int (int (length projects)), []]
      in if projects \<noteq> [] then
           index_entries (sort_key name projects) (lines @ [index_list_heading, []]) @ [[]]
         else lines)"

fun join :: "str \<Rightarrow> str list \<Rightarrow> str" where
  "join sep [] = []"
| "join sep [l] = l"
| "join sep (l # ls) = l @ sep @ join sep ls"

definition generate_index ::
    "Code2MarkdownConverter \<Rightarrow> str \<Rightarrow> ProjectInfo list \<Rightarrow> path \<times> str" where
  "generate_index self timestamp projects =
     (let markdown_dir = root_path self @ markdown_base_dir (config self);
          index_path = markdown_dir @ [ascii ''INDEX.md'']
      in (index_path, join [10] (index_lines timestamp projects)))"

subsection \<open>Reading files (\<^verbatim>\<open>utils.py\<close>)\<close>

text \<open>
  \<^verbatim>\<open>clean_text_content\<close>. The character class of the regular expression is
  \<^verbatim>\<open>[\x00-\x08\x0B-\x0C\x0E-\x1F\x7F-\x9F]\<close>. The dictionary literal of the source
  repeats the key U+06B2; a literal keeps the place of a key's first occurrence and its
  last value, which is what \<open>AList.update\<close> does.
\<close>

definition in_strip_class :: "nat \<Rightarrow> bool" where
  "in_strip_class c =
     (c \<le> 0x08 \<or> (0x0B \<le> c \<and> c \<le> 0x0C) \<or> (0x0E \<le> c \<and> c \<le> 0x1F) \<or> (0x7F \<le> c \<and> c \<le> 0x9F))"

definition replacements :: "(str \<times> str) list" where
  "replacements =
     fold (\<lambda>(k, v). AList.update k v)
       [([0x01A3], [0x51FD, 0x6570, 0x540D, 0xFF1A]),
        ([0x0723], [0x529F, 0x80FD, 0xFF1A]),
        ([0x06B2], [0x53C2, 0x6570, 0xFF1A]),
        ([0x06B2], [0x8FD4, 0x56DE, 0x503C, 0xFF1A])] []"

definition clean_text_content :: "str \<Rightarrow> str" where
  "clean_text_content content =
     (if content = [] then content
      else
        let content1 = filter (\<lambda>c. \<not> in_strip_class c) content
        in fold (\<lambda>(old, new) content2. replace content2 old new) replacements content1)"

text \<open>
  A file as \<^verbatim>\<open>read_file_safely\<close> meets it: the size \<^verbatim>\<open>stat\<close> reports (\<open>None\<close> when
  \<^verbatim>\<open>stat\<close> raises \<^verbatim>\<open>OSError\<close>), and what \<^verbatim>\<open>open\<close> gives: the bytes of the file, or
  the message of the \<^verbatim>\<open>OSError\<close> it raises. \<^verbatim>\<open>get_file_info\<close> is modelled for its
  \<^verbatim>\<open>'size'\<close> entry.
\<close>

record disk_file =
  stat_size :: "nat option"
  opened :: "str + nat list"

definition get_file_info :: "disk_file \<Rightarrow> nat" where
  "get_file_info f = (case stat_size f of Some sz \<Rightarrow> sz | None \<Rightarrow> 0)"

datatype encoding = UTF8 | GBK | GB2312 | UTF16 | Latin1

definition encodings :: "encoding list" where
  "encodings = [UTF8, GBK, GB2312, UTF16, Latin1]"

text \<open>
  The codecs belong to Python and are parameters: \<open>dec\<close> is strict decoding (\<open>None\<close> for
  \<^verbatim>\<open>UnicodeDecodeError\<close>), \<open>lossy\<close> is UTF-8 with \<^verbatim>\<open>errors='ignore'\<close>. The files are
  opened in text mode with the default \<^verbatim>\<open>newline=None\<close>, so \<^verbatim>\<open>read()\<close> gives the
  decoded text with every \<^verbatim>\<open>\r\n\<close> and every remaining \<^verbatim>\<open>\r\<close> turned into
  \<^verbatim>\<open>\n\<close>.
\<close>

fun universal_newlines :: "str \<Rightarrow> str" where
  "universal_newlines [] = []"
| "universal_newlines [c] = (if c = 13 then [10] else [c])"
| "universal_newlines (c # d # cs) =
     (if c = 13 \<and> d = 10 then 10 # universal_newlines cs
      else if c = 13 then 10 # universal_newlines (d # cs)
      else c # universal_newlines (d # cs))"

definition too_large_notice :: "nat \<Rightarrow> str" where
  "too_large_notice sz =
     ascii ''['' @ [0x6587, 0x4EF6, 0x8FC7, 0x5927] @ ascii '' ('' @ format_file_size (int sz)
       @ ascii ''), '' @ [0x8DF3, 0x8FC7, 0x663E, 0x793A, 0x5185, 0x5BB9] @ ascii '']''"

definition unreadable_notice :: "str \<Rightarrow> str" where
  "unreadable_notice msg =
     ascii ''['' @ [0x65E0, 0x6CD5, 0x8BFB, 0x53D6, 0x6587, 0x4EF6] @ ascii '': '' @ msg @ ascii '']''"

text \<open>
  The result of \<^verbatim>\<open>read_file_safely\<close> comes with the list of the \<^verbatim>\<open>open\<close> calls made,
  each with its encoding.
\<close>

fun try_encodings ::
    "(encoding \<Rightarrow> nat list \<Rightarrow> str option) \<Rightarrow> (nat list \<Rightarrow> str) \<Rightarrow> nat list
       \<Rightarrow> encoding list \<Rightarrow> encoding list \<Rightarrow> str \<times> encoding list" where
  "try_encodings dec lossy bytes [] opens =
     (clean_text_content (universal_newlines (lossy bytes)), opens @ [UTF8])"
| "try_encodings dec lossy bytes (enc # rest) opens =
     (case dec enc bytes of
        Some content \<Rightarrow> (clean_text_content (universal_newlines content), opens @ [enc])
      | None \<Rightarrow> try_encodings dec lossy bytes rest (opens @ [enc]))"

definition read_file_safely ::
    "(encoding \<Rightarrow> nat list \<Rightarrow> str option) \<Rightarrow> (nat list \<Rightarrow> str) \<Rightarrow> disk_file \<Rightarrow> int
       \<Rightarrow> str \<times> encoding list" where
  "read_file_safely dec lossy f max_size =
     (let sz = get_file_info f
      in if int sz > max_size then (too_large_notice sz, [])
         else case opened f of
                Inl msg \<Rightarrow> (unreadable_notice msg, [hd encodings])
              | Inr bytes \<Rightarrow> try_encodings dec lossy bytes encodings [])"

subsection \<open>The tree renderer (\<^verbatim>\<open>generate_tree_structure\<close>)\<close>

definition truncated_marker :: str where
  "truncated_marker =
     ascii ''['' @ [0x76EE, 0x5F55, 0x5C42, 0x6B21, 0x8FC7, 0x6DF1, 0xFF0C, 0x5DF2, 0x622A, 0x65AD]
       @ ascii '']''"

definition inaccessible_marker :: str where
  "inaccessible_marker =
     ascii ''['' @ [0x65E0, 0x6CD5, 0x8BBF, 0x95EE, 0x76EE, 0x5F55] @ ascii '']''"

definition last_prefix :: str where
  "last_prefix = [0x2514, 0x2500, 0x2500] @ ascii '' ''"

definition middle_prefix :: str where
  "middle_prefix = [0x251C, 0x2500, 0x2500] @ ascii '' ''"

definition last_child_prefix :: str where
  "last_child_prefix = ascii ''    ''"

definition middle_child_prefix :: str where
  "middle_child_prefix = [0x2502] @ ascii ''   ''"

text \<open>The first loop of the source: the entries kept, each with its \<^verbatim>\<open>is_dir\<close> flag.\<close>

fun collect_items :: "str set \<Rightarrow> str set \<Rightarrow> node list \<Rightarrow> (node \<times> bool) list" where
  "collect_items ignore_ds ignore_fs [] = []"
| "collect_items ignore_ds ignore_fs (item # rest) =
     (if is_dir item \<and> \<not> should_ignore_dir (name_of item) ignore_ds
      then (item, True) # collect_items ignore_ds ignore_fs rest
      else if is_file item \<and> \<not> should_ignore_file (name_of item) ignore_fs
      then (item, False) # collect_items ignore_ds ignore_fs rest
      else collect_items ignore_ds ignore_fs rest)"

definition sort_items :: "(node \<times> bool) list \<Rightarrow> (node \<times> bool) list" where
  "sort_items items = sort_key (\<lambda>x. (\<not> snd x, lower (name_of (fst x)))) items"

function generate_tree_structure ::
    "node \<Rightarrow> str set \<Rightarrow> str set \<Rightarrow> nat \<Rightarrow> nat \<Rightarrow> str list" where
  "generate_tree_structure root_dir ignore_ds ignore_fs max_depth current_depth =
     (if current_depth \<ge> max_depth then [truncated_marker]
      else
        case root_dir of
          Unreadable n \<Rightarrow> [inaccessible_marker]
        | File n s \<Rightarrow> []
        | Dir n cs \<Rightarrow>
            let items = sort_items (collect_items ignore_ds ignore_fs cs)
            in concat
                 (map (\<lambda>(i, item, isdir).
                         let is_last = (i = length items - 1);
                             prefix = (if is_last then last_prefix else middle_prefix)
                         in if isdir then
                              let child_prefix =
                                    (if is_last then last_child_prefix else middle_child_prefix);
                                  child_lines =
                                    generate_tree_structure item ignore_ds ignore_fs max_depth
                                      (current_depth + 1)
                              in (prefix @ name_of item @ ascii ''/'')
                                   # map (\<lambda>line. child_prefix @ line) child_lines
                            else [prefix @ name_of item])
                    (enumerate 0 items)))"
  by pat_completeness auto
termination
  by (relation "measure (\<lambda>(root_dir, ignore_ds, ignore_fs, max_depth, current_depth).
                           max_depth - current_depth)") auto

declare generate_tree_structure.simps [simp del]

text \<open>
  \<^verbatim>\<open>Code2MarkdownConverter.__init__\<close>: the given configuration or \<^verbatim>\<open>Config()\<close>, and the
  current working directory.
\<close>

definition init_converter :: "Config option \<Rightarrow> path \<Rightarrow> Code2MarkdownConverter" where
  "init_converter cfg cwd =
     \<lparr>config = (case cfg of Some c \<Rightarrow> c | None \<Rightarrow> default_config), root_path = cwd\<rparr>"

subsection \<open>Reference definitions for the statements\<close>

text \<open>
  The files a directory contains at any depth, by recursion over the tree, and the test
  the classifier applies to a file's extension.
\<close>

fun files_below :: "node \<Rightarrow> node list" where
  "files_below (Dir n cs) = concat (map (\<lambda>c. if is_file c then [c] else files_below c) cs)"
| "files_below (File n s) = []"
| "files_below (Unreadable n) = []"

definition recognized :: "Config \<Rightarrow> node \<Rightarrow> bool" where
  "recognized c f =
     (lower (suffix (name_of f)) \<in> code_extensions c
      \<or> lower (suffix (name_of f)) \<in> project_extensions c)"

text \<open>
  The classifier as the specification words it: the same search, but a subdirectory whose
  name is in the ignore set is left out with everything below it.
\<close>

fun files_below_not_ignored :: "str set \<Rightarrow> node \<Rightarrow> node list" where
  "files_below_not_ignored ignored (Dir n cs) =
     concat (map (\<lambda>c. if is_file c then [c]
                       else if should_ignore_dir (name_of c) ignored then []
                       else files_below_not_ignored ignored c) cs)"
| "files_below_not_ignored ignored (File n s) = []"
| "files_below_not_ignored ignored (Unreadable n) = []"

definition is_project_spec :: "Code2MarkdownConverter \<Rightarrow> node \<Rightarrow> bool" where
  "is_project_spec self p =
     list_ex (recognized (config self))
       (files_below_not_ignored (ignore_dirs (config self)) p)"

text \<open>
  Discovery as the specification words it: a top-level child that is a project is
  recorded, otherwise its own children are tested, and nothing below them.
\<close>

fun second_level :: "Code2MarkdownConverter \<Rightarrow> path \<Rightarrow> node list \<Rightarrow> (path \<times> node) list" where
  "second_level self p [] = []"
| "second_level self p (subdir # rest) =
     (if is_dir subdir \<and> \<not> should_ignore_dir (name_of subdir) (ignore_dirs (config self))
         \<and> is_project_directory self subdir
      then (p @ [name_of subdir], subdir) # second_level self p rest
      else second_level self p rest)"

fun first_level :: "Code2MarkdownConverter \<Rightarrow> path \<Rightarrow> node list \<Rightarrow> (path \<times> node) list" where
  "first_level self code_dir [] = []"
| "first_level self code_dir (item # items) =
     (if is_dir item \<and> \<not> should_ignore_dir (name_of item) (ignore_dirs (config self)) then
        (if is_project_directory self item then [(code_dir @ [name_of item], item)]
         else (case item of
                 Dir n cs \<Rightarrow> second_level self (code_dir @ [name_of item]) cs
               | _ \<Rightarrow> []))
        @ first_level self code_dir items
      else first_level self code_dir items)"

definition discover_two_levels :: "Code2MarkdownConverter \<Rightarrow> node option \<Rightarrow> (path \<times> node) list" where
  "discover_two_levels self fs =
     (case fs of
        Some (Dir n items) \<Rightarrow> first_level self (root_path self @ code_base_dir (config self)) items
      | _ \<Rightarrow> [])"

text \<open>
  The children of the base directory that are directories, are not ignored and are
  projects, each with its path.
\<close>

definition top_level_projects ::
    "Code2MarkdownConverter \<Rightarrow> path \<Rightarrow> node list \<Rightarrow> (path \<times> node) list" where
  "top_level_projects self code_dir items =
     map (\<lambda>d. (code_dir @ [name_of d], d))
       (filter (\<lambda>d. is_dir d \<and> \<not> should_ignore_dir (name_of d) (ignore_dirs (config self))
                     \<and> is_project_directory self d) items)"

text \<open>
  Sample inputs for the worked examples: a base directory whose only project is
  \<^verbatim>\<open>batch\<close> (its source file lies three levels further down), and one with three
  projects: the output step fails for the first, and in the second \<^verbatim>\<open>stat\<close> fails
  on the file below \<^verbatim>\<open>locked\<close>.
\<close>

definition sample_code_dir :: node where
  "sample_code_dir =
     Dir (ascii ''Code'')
       [Dir (ascii ''batch'') [Dir (ascii ''a'') [Dir (ascii ''b'') [File (ascii ''main.c'') 10]]],
        Dir (ascii ''notes'') [Dir (ascii ''old'') [File (ascii ''readme.txt'') 5]],
        Dir (ascii ''build'') [File (ascii ''x.c'') 1],
        File (ascii ''top.py'') 7]"




text \<open>
  A base directory with a directory that cannot be listed five levels down, below a
  child that is not a project, next to a child that is one.
\<close>

definition deep_unreadable :: node where
  "deep_unreadable =
     Dir (ascii ''Code'')
       [Dir (ascii ''batch'')
          [Dir (ascii ''a'') [Dir (ascii ''b'') [Dir (ascii ''c'') [Unreadable (ascii ''u'')]]]],
        Dir (ascii ''ok'') [File (ascii ''main.c'') 1]]"

text \<open>
  What the analysis keeps and how it reads a file: a file is retained when its name
  matches no ignore pattern; its extension is the lower-cased suffix of its name.
\<close>

definition retained :: "Config \<Rightarrow> node \<Rightarrow> bool" where
  "retained c f = (is_file f \<and> \<not> should_ignore_file (name_of f) (ignore_files c))"

definition extension :: "node \<Rightarrow> str" where
  "extension f = lower (suffix (name_of f))"

fun file_size :: "node \<Rightarrow> nat" where
  "file_size (File n sz) = sz"
| "file_size (Dir n cs) = 0"
| "file_size (Unreadable n) = 0"

text \<open>
  A project with two C sources (one with an upper-case extension), a header, a JSON file,
  a picture, and a compiled Python file that the default ignore patterns leave out.
\<close>

definition five_files :: node where
  "five_files =
     Dir (ascii ''proj'')
       [File (ascii ''main.c'') 100,
        Dir (ascii ''src'') [File (ascii ''util.C'') 50, File (ascii ''util.h'') 20],
        File (ascii ''conf.json'') 10,
        Dir (ascii ''build'') [File (ascii ''logo.png'') 500],
        File (ascii ''x.pyc'') 7]"

text \<open>A project whose only file lies below an ignored directory.\<close>

definition with_node_modules :: node where
  "with_node_modules =
     Dir (ascii ''proj'')
       [Dir (ascii ''node_modules'') [Dir (ascii ''lib'') [File (ascii ''index.js'') 40]]]"

text \<open>A project record with a given name, as the index generator reads it.\<close>

definition project_named :: "str \<Rightarrow> ProjectInfo" where
  "project_named nm =
     \<lparr>name = nm, source_path = [ascii ''Code'', nm],
      target_path = [ascii ''Markdown'', normalize_project_name nm @ ascii ''.md''],
      generated_time = 0, stats = empty_stats\<rparr>"

text \<open>The C0 and C1 control characters: U+0000 to U+001F, and U+007F to U+009F.\<close>

definition c0_c1_control :: "nat \<Rightarrow> bool" where
  "c0_c1_control c = (c \<le> 0x1F \<or> (0x7F \<le> c \<and> c \<le> 0x9F))"

text \<open>
  What the replacement table makes of one character: the label of the key it is, or the
  character itself.
\<close>

definition table_char :: "nat \<Rightarrow> str" where
  "table_char c = (case map_of replacements [c] of Some label \<Rightarrow> label | None \<Rightarrow> [c])"

text \<open>
  Reading a rendered level: the line of an entry starts with one of the two connector
  glyphs; the lines of a subdirectory's content start with a space or a vertical bar.
\<close>

definition is_entry_line :: "str \<Rightarrow> bool" where
  "is_entry_line l = (l \<noteq> [] \<and> (hd l = 0x251C \<or> hd l = 0x2514))"

definition entry_text :: "nat \<Rightarrow> nat \<times> node \<times> bool \<Rightarrow> str" where
  "entry_text n x =
     (case x of (i, item, isdir) \<Rightarrow>
        (if i = n - 1 then last_prefix else middle_prefix) @ name_of item
          @ (if isdir then ascii ''/'' else []))"

text \<open>The entries of a sample directory, in the order \<^verbatim>\<open>iterdir\<close> gives them.\<close>

definition sample_level :: "node list" where
  "sample_level =
     [File (ascii ''b.txt'') 1, Dir (ascii ''Zeta'') [],
      Dir (ascii ''alpha'') [File (ascii ''x'') 1], Dir (ascii ''.git'') []]"

section \<open>Properties\<close>

subsection \<open>File sizes\<close>

lemma scale_loop_steps:
  "i + j \<le> 3 \<Longrightarrow> 1024 ^ j \<le> x \<Longrightarrow> (i + j < 3 \<Longrightarrow> x < 1024 ^ (j + 1))
     \<Longrightarrow> scale_loop x i = (x / 1024 ^ j, i + j)"
proof (induction j arbitrary: x i)
  case 0
  then show ?case
    by (subst scale_loop.simps) (auto simp: size_names_def)
next
  case (Suc j)
  have big: "1024 \<le> x"
  proof -
    have "(1024::rat) \<le> 1024 ^ Suc j" by (simp add: self_le_power)
    with Suc.prems(2) show ?thesis by linarith
  qed
  have lt: "i < 3" using Suc.prems(1) by simp
  have step: "scale_loop x i = scale_loop (x / 1024) (i + 1)"
    using big lt by (subst scale_loop.simps) (simp add: size_names_def)
  have a: "(i + 1) + j \<le> 3" using Suc.prems(1) by simp
  have b: "1024 ^ j \<le> x / 1024" using Suc.prems(2) by (simp add: le_divide_eq)
  have c: "(i + 1) + j < 3 \<Longrightarrow> x / 1024 < 1024 ^ (j + 1)"
    using Suc.prems(3) by (simp add: divide_less_eq)
  from Suc.IH [OF a b c] step show ?case by simp
qed

text \<open>
  Claim C9. \<^verbatim>\<open>format_file_size\<close> renders 0 as "0 B", 999 as "999 B", 1024 as
  "1.0 KB" and 1536 as "1.5 KB". For a positive byte count \<open>n\<close> (below \<open>2 ^ 53\<close>, where
  the float arithmetic of the source is exact), let \<open>k\<close> be the largest of the four units
  B, KB, MB, GB in which the value is at least 1: \<open>1024 ^ k \<le> n\<close>, and \<open>n < 1024 ^ (k + 1)\<close>
  unless \<open>k\<close> is GB. Then the text is the integer itself at the B scale, and otherwise
  the value \<open>n / 1024 ^ k\<close> rounded to one decimal place, followed by a space and the
  unit's name.
\<close>

theorem format_file_size_units:
  "format_file_size 0 = ascii ''0 B''
   \<and> format_file_size 999 = ascii ''999 B''
   \<and> format_file_size 1024 = ascii ''1.0 KB''
   \<and> format_file_size 1536 = ascii ''1.5 KB''
   \<and> (0 < n \<and> n < 2 ^ 53 \<and> k \<le> 3 \<and> 1024 ^ k \<le> n \<and> (k < 3 \<longrightarrow> n < 1024 ^ (k + 1)) \<longrightarrow>
        format_file_size n =
          (if k = 0 then str_int n
           else let t = round_half_even (of_int n * 10 / 1024 ^ k)
                in str_int (t div 10) @ ascii ''.'' @ str_int (t mod 10))
          @ ascii '' '' @ size_names ! k)"
proof -
  have e0: "format_file_size 0 = ascii ''0 B''"
    by (simp add: format_file_size_def)
  have e1: "format_file_size 999 = ascii ''999 B''"
    by (simp add: format_file_size_def ascii_def size_names_def str_int_def int_of_float_def
        str_nat.simps scale_loop.simps)
  have e2: "format_file_size 1024 = ascii ''1.0 KB''"
    by (simp add: format_file_size_def ascii_def size_names_def format_1f_def
        round_half_even_def str_int_def str_nat.simps scale_loop.simps)
  have e3: "format_file_size 1536 = ascii ''1.5 KB''"
    by (simp add: format_file_size_def ascii_def size_names_def format_1f_def
        round_half_even_def str_int_def str_nat.simps scale_loop.simps)
  have gen: "format_file_size n =
          (if k = 0 then str_int n
           else let t = round_half_even (of_int n * 10 / 1024 ^ k)
                in str_int (t div 10) @ ascii ''.'' @ str_int (t mod 10))
          @ ascii '' '' @ size_names ! k"
    if h: "0 < n" "k \<le> 3" "1024 ^ k \<le> n" "k < 3 \<longrightarrow> n < 1024 ^ (k + 1)"
  proof -
    have le: "(1024::rat) ^ k \<le> of_int n"
    proof -
      have "(of_int (1024 ^ k) :: rat) \<le> of_int n" using h(3) by (simp only: of_int_le_iff)
      then show ?thesis by simp
    qed
    have lt: "0 + k < 3 \<Longrightarrow> (of_int n :: rat) < 1024 ^ (k + 1)"
    proof -
      assume "0 + k < 3"
      then have "n < 1024 ^ (k + 1)" using h(4) by simp
      then have "(of_int n :: rat) < of_int (1024 ^ (k + 1))" by (simp only: of_int_less_iff)
      then show ?thesis by simp
    qed
    have sl: "scale_loop (of_int n) 0 = (of_int n / 1024 ^ k, k)"
      using scale_loop_steps [of 0 k "of_int n", OF _ le lt] h(2) by simp
    show ?thesis
      using h(1) sl by (simp add: format_file_size_def format_1f_def int_of_float_def Let_def)
  qed
  from e0 e1 e2 e3 gen show ?thesis by blast
qed

lemma round_half_even_tie: "round_half_even (25 / 2) = 12"
  by code_simp

lemma str_int_digits: "str_int 1 = [49] \<and> str_int 2 = [50]"
  by (simp add: str_int_def str_nat.simps)

theorem format_file_size_units_witness:
  "format_file_size 0 = ascii ''0 B''
   \<and> format_file_size 999 = ascii ''999 B''
   \<and> format_file_size 1024 = ascii ''1.0 KB''
   \<and> format_file_size 1536 = ascii ''1.5 KB''
   \<and> format_file_size 1310720 = ascii ''1.2 MB''"
  using format_file_size_units [of 1310720 2]
  by (simp add: round_half_even_tie str_int_digits size_names_def ascii_def)

lemma is_project_loop_iff:
  "is_project_loop c items False False \<longleftrightarrow> (\<exists>f \<in> set items. is_file f \<and> recognized c f)"
  by (induction items) (auto simp: recognized_def Let_def)

lemma files_below_file: "is_file c \<Longrightarrow> files_below c = []"
  by (cases c) auto

lemma set_files_below_Dir:
  "set (files_below (Dir n cs)) = {c \<in> set cs. is_file c} \<union> (\<Union>c \<in> set cs. set (files_below c))"
  by (auto simp: files_below_file split: if_splits)

lemma files_of_rglob: "{f \<in> set (rglob d). is_file f} = set (files_below d)"
proof (induction d)
  case (Dir n cs)
  have "{f \<in> set (rglob (Dir n cs)). is_file f}
          = {c \<in> set cs. is_file c} \<union> (\<Union>c \<in> set cs. {f \<in> set (rglob c). is_file f})"
    by auto
  also have "\<dots> = {c \<in> set cs. is_file c} \<union> (\<Union>c \<in> set cs. set (files_below c))"
    using Dir.IH by simp
  finally show ?case by (simp only: set_files_below_Dir)
qed auto

lemma is_project_directory_iff:
  "is_project_directory self d \<longleftrightarrow> (\<exists>f \<in> set (files_below d). recognized (config self) f)"
  unfolding is_project_directory_def is_project_loop_iff
  using files_of_rglob [of d] by blast

lemma rglob_child: "c \<in> set cs \<Longrightarrow> set (rglob c) \<subseteq> set (rglob (Dir n cs))"
  by auto

lemma files_below_child: "c \<in> set cs \<Longrightarrow> set (files_below c) \<subseteq> set (files_below (Dir n cs))"
  unfolding set_files_below_Dir by blast

lemma not_project_child:
  "\<not> is_project_directory self (Dir n cs) \<Longrightarrow> c \<in> set cs \<Longrightarrow> \<not> is_project_directory self c"
  unfolding is_project_directory_iff using files_below_child [of c cs n] by blast

subsection \<open>The project classifier\<close>

text \<open>
  Claim C1 says that subtrees whose directory name is in the ignore set are left out of
  the classifier's search. The source searches with \<^verbatim>\<open>path.rglob('*')\<close> and never
  looks at \<open>ignore_dirs\<close>: a directory whose only recognized file lies in
  \<^verbatim>\<open>node_modules\<close> is classified as a project, while the search that skips ignored
  subtrees finds nothing.
\<close>

theorem is_project_directory_ignores_nothing_counterexample:
  "is_project_directory (init_converter None [ascii ''/''])
     (Dir (ascii ''proj'') [Dir (ascii ''node_modules'') [File (ascii ''x.js'') 1]]) = True
   \<and> should_ignore_dir (ascii ''node_modules'') (ignore_dirs (config (init_converter None [ascii ''/''])))
   \<and> is_project_spec (init_converter None [ascii ''/''])
     (Dir (ascii ''proj'') [Dir (ascii ''node_modules'') [File (ascii ''x.js'') 1]]) = False"
  by (simp add: is_project_directory_def is_project_spec_def init_converter_def default_config_def
      post_init_def should_ignore_dir_def default_ignore_dirs_def default_code_extensions_def
      suffix_def lower_def lower_cp_def ascii_def Let_def)

text \<open>
  Claim C1, amended. For every directory, \<^verbatim>\<open>_is_project_directory\<close> returns true if
  and only if the directory contains, at some depth, a file whose lower-cased extension
  is in the code-extension set or in the project-extension set; no subtree is left out
  of the search, whatever the name of its directory.
\<close>

theorem is_project_directory_any_depth:
  "is_project_directory self d \<longleftrightarrow>
     (\<exists>f \<in> set (files_below d).
        lower (suffix (name_of f)) \<in> code_extensions (config self) \<union> project_extensions (config self))"
  unfolding is_project_directory_iff recognized_def by blast

theorem is_project_directory_any_depth_witness:
  "is_project_directory (init_converter None [ascii ''/''])
     (Dir (ascii ''proj'') [Dir (ascii ''node_modules'') [File (ascii ''x.js'') 1]])
   \<and> \<not> is_project_directory (init_converter None [ascii ''/''])
     (Dir (ascii ''proj'') [Dir (ascii ''img'') [File (ascii ''x.png'') 1]])"
  unfolding is_project_directory_any_depth
  by (simp add: init_converter_def default_config_def
      post_init_def default_code_extensions_def default_project_extensions_def
      suffix_def lower_def lower_cp_def ascii_def Let_def)

subsection \<open>Project discovery\<close>

lemma find_nothing_below_a_non_project:
  "\<not> is_project_directory self d \<Longrightarrow> find_project_directories self p d = Inr ps \<Longrightarrow> ps = []"
  "(\<forall>c \<in> set cs. \<not> is_project_directory self c) \<Longrightarrow> find_in_subdirs self p cs = Inr ps
     \<Longrightarrow> ps = []"
proof (induction self p d and self p cs arbitrary: ps and ps
       rule: find_project_directories_find_in_subdirs.induct)
  case (1 self p n cs)
  have "\<forall>c \<in> set cs. \<not> is_project_directory self c"
    using "1.prems"(1) not_project_child by blast
  then show ?case using 1 by simp
next
  case (2 self p n)
  then show ?case by simp
next
  case (3 self p n s)
  then show ?case by simp
next
  case (4 self p)
  then show ?case by simp
next
  case (5 self p subdir rest)
  show ?case
  proof (cases "is_dir subdir \<and> \<not> should_ignore_dir (name_of subdir) (ignore_dirs (config self))")
    case False
    then show ?thesis using 5 by auto
  next
    case True
    have np: "\<not> is_project_directory self subdir" using "5.prems"(1) by simp
    from "5.prems"(2) True np obtain sub rest_ps where
      s: "find_project_directories self (p @ [name_of subdir]) subdir = Inr sub"
      and r: "find_in_subdirs self p rest = Inr rest_ps" and e: "ps = sub @ rest_ps"
      by (auto split: sum.splits)
    have "sub = []" using "5.IH"(2) [OF True np np s] .
    moreover have "rest_ps = []" using "5.IH"(3) [OF True np s _ r] "5.prems"(1) by simp
    ultimately show ?thesis using e by simp
  qed
qed

lemma find_project_directories_result:
  assumes "find_project_directories self p d = Inr ps"
  shows "ps = (if is_project_directory self d then [(p, d)] else [])"
proof (cases "is_project_directory self d")
  case True
  then show ?thesis using assms by (cases d) auto
next
  case False
  then show ?thesis using find_nothing_below_a_non_project(1) [OF False assms] by simp
qed

lemma discover_loop_result:
  "discover_loop self code_dir items = Inr ps \<Longrightarrow> ps = top_level_projects self code_dir items"
proof (induction items arbitrary: ps)
  case Nil
  then show ?case by (simp add: top_level_projects_def)
next
  case (Cons item items)
  show ?case
  proof (cases "is_dir item \<and> \<not> should_ignore_dir (name_of item) (ignore_dirs (config self))")
    case False
    then show ?thesis using Cons by (auto simp: top_level_projects_def)
  next
    case True
    from Cons.prems True obtain found rest_ps where
      f: "find_project_directories self (code_dir @ [name_of item]) item = Inr found"
      and r: "discover_loop self code_dir items = Inr rest_ps" and e: "ps = found @ rest_ps"
      by (auto split: sum.splits)
    show ?thesis
      using find_project_directories_result [OF f] Cons.IH [OF r] e True
      by (simp add: top_level_projects_def)
  qed
qed

lemma second_level_nothing:
  "(\<forall>c \<in> set cs. \<not> is_project_directory self c) \<Longrightarrow> second_level self p cs = []"
  by (induction cs) auto

lemma first_level_result: "first_level self code_dir items = top_level_projects self code_dir items"
proof (induction items)
  case Nil
  then show ?case by (simp add: top_level_projects_def)
next
  case (Cons item items)
  have "second_level self (code_dir @ [name_of item]) cs = []"
    if "item = Dir n cs" "\<not> is_project_directory self item" for n cs
    using that not_project_child second_level_nothing by blast
  then show ?case using Cons
    by (auto simp: top_level_projects_def split: node.splits)
qed

text \<open>
  What discovery returns. Every directory \<^verbatim>\<open>discover_projects\<close> returns is a project
  directory and a child of the base directory, so its path lies at most two levels below
  the base directory. The recursion of \<^verbatim>\<open>_find_project_directories\<close> carries no depth
  counter, but a directory that is not a project has no project below it: when the
  discovery returns a list, it is the list a search limited to the children and
  grandchildren of the base directory gives.
\<close>

theorem discover_projects_two_levels:
  assumes "discover_projects self fs = Inr projects"
  shows "(\<forall>(q, d) \<in> set projects.
            is_dir d \<and> is_project_directory self d
            \<and> take (length (root_path self @ code_base_dir (config self))) q
                = root_path self @ code_base_dir (config self)
            \<and> length q \<le> length (root_path self @ code_base_dir (config self)) + 2)
         \<and> (\<forall>q d. length (root_path self @ code_base_dir (config self)) + 2 < length q
                \<longrightarrow> (q, d) \<notin> set projects)
         \<and> projects = discover_two_levels self fs"
proof -
  let ?code_dir = "root_path self @ code_base_dir (config self)"
  from assms obtain d where d: "fs = Some d"
    by (cases fs) (auto simp: discover_projects_def Let_def)
  from assms d obtain n items where dir: "d = Dir n items"
    by (cases d) (auto simp: discover_projects_def Let_def)
  have fs: "fs = Some (Dir n items)" using d dir by simp
  have loop: "discover_loop self ?code_dir items = Inr projects"
    using assms fs by (simp add: discover_projects_def Let_def)
  have ps: "projects = top_level_projects self ?code_dir items"
    using discover_loop_result [OF loop] .
  have a: "\<forall>(q, d) \<in> set projects.
            is_dir d \<and> is_project_directory self d
            \<and> take (length ?code_dir) q = ?code_dir \<and> length q \<le> length ?code_dir + 2"
    unfolding ps top_level_projects_def by auto
  have b: "\<forall>q d. length ?code_dir + 2 < length q \<longrightarrow> (q, d) \<notin> set projects"
    using a by fastforce
  have c: "projects = discover_two_levels self fs"
    unfolding ps fs discover_two_levels_def by (simp add: first_level_result)
  from a b c show ?thesis by blast
qed

lemma sample_discovery:
  "discover_projects (init_converter None [ascii ''/'', ascii ''w'']) (Some sample_code_dir)
     = Inr [([ascii ''/'', ascii ''w'', ascii ''Code'', ascii ''batch''],
             Dir (ascii ''batch'') [Dir (ascii ''a'') [Dir (ascii ''b'') [File (ascii ''main.c'') 10]]])]"
  by (simp add: discover_projects_def sample_code_dir_def is_project_directory_def
      init_converter_def default_config_def post_init_def should_ignore_dir_def
      default_ignore_dirs_def default_code_extensions_def default_project_extensions_def
      suffix_def lower_def lower_cp_def ascii_def Let_def)

theorem discover_projects_two_levels_witness:
  "discover_projects (init_converter None [ascii ''/'', ascii ''w'']) (Some sample_code_dir)
     = Inr [([ascii ''/'', ascii ''w'', ascii ''Code'', ascii ''batch''],
             Dir (ascii ''batch'') [Dir (ascii ''a'') [Dir (ascii ''b'') [File (ascii ''main.c'') 10]]])]
   \<and> discover_two_levels (init_converter None [ascii ''/'', ascii ''w'']) (Some sample_code_dir)
     = [([ascii ''/'', ascii ''w'', ascii ''Code'', ascii ''batch''],
             Dir (ascii ''batch'') [Dir (ascii ''a'') [Dir (ascii ''b'') [File (ascii ''main.c'') 10]]])]
   \<and> ([ascii ''/'', ascii ''w'', ascii ''Code'', ascii ''batch'', ascii ''a'', ascii ''b''],
        Dir (ascii ''b'') [File (ascii ''main.c'') 10])
       \<notin> set [([ascii ''/'', ascii ''w'', ascii ''Code'', ascii ''batch''],
             Dir (ascii ''batch'') [Dir (ascii ''a'') [Dir (ascii ''b'') [File (ascii ''main.c'') 10]]])]"
proof -
  note t = discover_projects_two_levels [OF sample_discovery]
  have "discover_two_levels (init_converter None [ascii ''/'', ascii ''w'']) (Some sample_code_dir)
     = [([ascii ''/'', ascii ''w'', ascii ''Code'', ascii ''batch''],
             Dir (ascii ''batch'') [Dir (ascii ''a'') [Dir (ascii ''b'') [File (ascii ''main.c'') 10]]])]"
    using t by simp
  then show ?thesis using sample_discovery by (simp add: ascii_def)
qed

text \<open>
  Claim C2 says that the discovery descends at most one level below a top-level child
  that is not a project. \<^verbatim>\<open>_find_project_directories\<close> calls itself on every
  subdirectory that is not a project, with no depth counter, although its comment says
  that it recurses two levels at most. In \<open>deep_unreadable\<close> it reaches the directory
  \<^verbatim>\<open>u\<close> five levels below the base directory and lists it; the
  \<^verbatim>\<open>PermissionError\<close> of that listing ends the whole discovery, and the project
  \<^verbatim>\<open>ok\<close> is not returned. A descent of one level below \<^verbatim>\<open>batch\<close> never comes near
  \<^verbatim>\<open>u\<close> and returns \<^verbatim>\<open>ok\<close>.
\<close>

theorem discover_projects_descends_without_bound:
  "discover_projects (init_converter None [ascii ''/'', ascii ''w'']) (Some deep_unreadable)
     = Inl (PermissionError [ascii ''/'', ascii ''w'', ascii ''Code'', ascii ''batch'',
                             ascii ''a'', ascii ''b'', ascii ''c'', ascii ''u''])
   \<and> discover_two_levels (init_converter None [ascii ''/'', ascii ''w'']) (Some deep_unreadable)
     = [([ascii ''/'', ascii ''w'', ascii ''Code'', ascii ''ok''],
         Dir (ascii ''ok'') [File (ascii ''main.c'') 1])]"
  by (simp add: discover_projects_def discover_two_levels_def deep_unreadable_def
      is_project_directory_def init_converter_def default_config_def post_init_def
      should_ignore_dir_def default_ignore_dirs_def default_code_extensions_def
      default_project_extensions_def suffix_def lower_def lower_cp_def ascii_def Let_def)

subsection \<open>The orchestrator\<close>











subsection \<open>The file analyzer\<close>

lemma analyze_step_fields:
  "code_files (analyze_step c st f) =
     code_files st + (if retained c f \<and> extension f \<in> code_extensions c
                         \<and> extension f \<notin> header_extensions then 1 else 0)"
  "header_files (analyze_step c st f) =
     header_files st + (if retained c f \<and> extension f \<in> code_extensions c
                         \<and> extension f \<in> header_extensions then 1 else 0)"
  "project_files (analyze_step c st f) =
     project_files st + (if retained c f \<and> extension f \<notin> code_extensions c
                         \<and> extension f \<in> project_extensions c then 1 else 0)"
  "other_files (analyze_step c st f) =
     other_files st + (if retained c f \<and> extension f \<notin> code_extensions c
                         \<and> extension f \<notin> project_extensions c then 1 else 0)"
  "total_size (analyze_step c st f) = total_size st + (if retained c f then file_size f else 0)"
  by (cases f; simp add: retained_def extension_def Let_def)+

lemma analyze_fold_fields:
  "code_files (foldl (analyze_step c) st items) =
     code_files st + length (filter (\<lambda>f. retained c f \<and> extension f \<in> code_extensions c
                         \<and> extension f \<notin> header_extensions) items)"
  "header_files (foldl (analyze_step c) st items) =
     header_files st + length (filter (\<lambda>f. retained c f \<and> extension f \<in> code_extensions c
                         \<and> extension f \<in> header_extensions) items)"
  "project_files (foldl (analyze_step c) st items) =
     project_files st + length (filter (\<lambda>f. retained c f \<and> extension f \<notin> code_extensions c
                         \<and> extension f \<in> project_extensions c) items)"
  "other_files (foldl (analyze_step c) st items) =
     other_files st + length (filter (\<lambda>f. retained c f \<and> extension f \<notin> code_extensions c
                         \<and> extension f \<notin> project_extensions c) items)"
  "total_size (foldl (analyze_step c) st items) =
     total_size st + sum_list (map file_size (filter (retained c) items))"
  by (induction items arbitrary: st; simp add: analyze_step_fields)+

lemma four_way_split:
  "distinct [a, b, c, d] \<Longrightarrow>
   length (filter (\<lambda>f. g f = a) fs) + length (filter (\<lambda>f. g f = b) fs)
     + length (filter (\<lambda>f. g f = c) fs) + length (filter (\<lambda>f. g f = d) fs)
     + length (filter (\<lambda>f. g f \<notin> {a, b, c, d}) fs) = length fs"
  by (induction fs) auto

lemma default_buckets:
  "ascii ''.c'' \<in> default_code_extensions" "ascii ''.c'' \<notin> header_extensions"
  "ascii ''.h'' \<in> default_code_extensions" "ascii ''.h'' \<in> header_extensions"
  "ascii ''.json'' \<notin> default_code_extensions" "ascii ''.json'' \<in> default_project_extensions"
  "ascii ''.png'' \<notin> default_code_extensions" "ascii ''.png'' \<notin> default_project_extensions"
  by (simp_all add: default_code_extensions_def default_project_extensions_def
      header_extensions_def ascii_def)

text \<open>
  Claim C7. \<^verbatim>\<open>analyze_project\<close> buckets every retained file by its extension: an
  extension of the code-extension set counts as code unless it is \<^verbatim>\<open>.h\<close>, \<^verbatim>\<open>.hpp\<close> or
  \<^verbatim>\<open>.hh\<close>, which counts as header; otherwise an extension of the project-extension set
  counts as project; every other file counts as other. With the default extension sets,
  a project whose retained files are exactly 2 files with extension \<^verbatim>\<open>.c\<close>, 1 with
  \<^verbatim>\<open>.h\<close>, 1 with \<^verbatim>\<open>.json\<close> and 1 with \<^verbatim>\<open>.png\<close> gets code_files = 2,
  header_files = 1, project_files = 1 and other_files = 1.
\<close>

theorem analyze_project_buckets:
  "(code_files (stats (analyze_project self clock (p, project)))
      = length (filter (\<lambda>f. extension f \<in> code_extensions (config self)
                             \<and> extension f \<notin> header_extensions)
                  (filter (retained (config self)) (rglob project)))
    \<and> header_files (stats (analyze_project self clock (p, project)))
      = length (filter (\<lambda>f. extension f \<in> code_extensions (config self)
                             \<and> extension f \<in> header_extensions)
                  (filter (retained (config self)) (rglob project)))
    \<and> project_files (stats (analyze_project self clock (p, project)))
      = length (filter (\<lambda>f. extension f \<notin> code_extensions (config self)
                             \<and> extension f \<in> project_extensions (config self))
                  (filter (retained (config self)) (rglob project)))
    \<and> other_files (stats (analyze_project self clock (p, project)))
      = length (filter (\<lambda>f. extension f \<notin> code_extensions (config self)
                             \<and> extension f \<notin> project_extensions (config self))
                  (filter (retained (config self)) (rglob project))))
   \<and> (code_extensions (config self) = default_code_extensions
      \<and> project_extensions (config self) = default_project_extensions
      \<and> length (filter (retained (config self)) (rglob project)) = 5
      \<and> length (filter (\<lambda>f. extension f = ascii ''.c'')
                  (filter (retained (config self)) (rglob project))) = 2
      \<and> length (filter (\<lambda>f. extension f = ascii ''.h'')
                  (filter (retained (config self)) (rglob project))) = 1
      \<and> length (filter (\<lambda>f. extension f = ascii ''.json'')
                  (filter (retained (config self)) (rglob project))) = 1
      \<and> length (filter (\<lambda>f. extension f = ascii ''.png'')
                  (filter (retained (config self)) (rglob project))) = 1
      \<longrightarrow> code_files (stats (analyze_project self clock (p, project))) = 2
          \<and> header_files (stats (analyze_project self clock (p, project))) = 1
          \<and> project_files (stats (analyze_project self clock (p, project))) = 1
          \<and> other_files (stats (analyze_project self clock (p, project))) = 1)"
proof -
  let ?c = "config self"
  let ?fs = "filter (retained ?c) (rglob project)"
  let ?st = "stats (analyze_project self clock (p, project))"
  have st: "?st = foldl (analyze_step ?c) empty_stats (rglob project)"
    by (simp add: analyze_project_def analyze_stats_def Let_def)
  have rule:
    "code_files ?st = length (filter (\<lambda>f. extension f \<in> code_extensions ?c
                             \<and> extension f \<notin> header_extensions) ?fs)"
    "header_files ?st = length (filter (\<lambda>f. extension f \<in> code_extensions ?c
                             \<and> extension f \<in> header_extensions) ?fs)"
    "project_files ?st = length (filter (\<lambda>f. extension f \<notin> code_extensions ?c
                             \<and> extension f \<in> project_extensions ?c) ?fs)"
    "other_files ?st = length (filter (\<lambda>f. extension f \<notin> code_extensions ?c
                             \<and> extension f \<notin> project_extensions ?c) ?fs)"
    unfolding st by (simp_all add: analyze_fold_fields empty_stats_def conj_ac)
  have example:
    "code_files ?st = 2 \<and> header_files ?st = 1 \<and> project_files ?st = 1 \<and> other_files ?st = 1"
    if ce: "code_extensions ?c = default_code_extensions"
      and pe: "project_extensions ?c = default_project_extensions"
      and n: "length ?fs = 5"
      and nc: "length (filter (\<lambda>f. extension f = ascii ''.c'') ?fs) = 2"
      and nh: "length (filter (\<lambda>f. extension f = ascii ''.h'') ?fs) = 1"
      and nj: "length (filter (\<lambda>f. extension f = ascii ''.json'') ?fs) = 1"
      and np: "length (filter (\<lambda>f. extension f = ascii ''.png'') ?fs) = 1"
  proof -
    have dist: "distinct [ascii ''.c'', ascii ''.h'', ascii ''.json'', ascii ''.png'']"
      by (simp add: ascii_def)
    have "length (filter (\<lambda>f. extension f
              \<notin> {ascii ''.c'', ascii ''.h'', ascii ''.json'', ascii ''.png''}) ?fs) = 0"
      using four_way_split [OF dist, of extension ?fs] n nc nh nj np by linarith
    then have known: "\<forall>f \<in> set ?fs. extension f
              \<in> {ascii ''.c'', ascii ''.h'', ascii ''.json'', ascii ''.png''}"
      by (simp only: length_0_conv filter_empty_conv) blast
    have neq: "ascii ''.c'' \<noteq> ascii ''.h''" "ascii ''.c'' \<noteq> ascii ''.json''"
      "ascii ''.c'' \<noteq> ascii ''.png''" "ascii ''.h'' \<noteq> ascii ''.json''"
      "ascii ''.h'' \<noteq> ascii ''.png''" "ascii ''.json'' \<noteq> ascii ''.png''"
      by (simp_all add: ascii_def)
    have c: "filter (\<lambda>f. extension f \<in> default_code_extensions
                 \<and> extension f \<notin> header_extensions) ?fs
             = filter (\<lambda>f. extension f = ascii ''.c'') ?fs"
      by (rule filter_cong [OF refl]) (use known default_buckets neq in auto)
    have h: "filter (\<lambda>f. extension f \<in> default_code_extensions
                 \<and> extension f \<in> header_extensions) ?fs
             = filter (\<lambda>f. extension f = ascii ''.h'') ?fs"
      by (rule filter_cong [OF refl]) (use known default_buckets neq in auto)
    have j: "filter (\<lambda>f. extension f \<notin> default_code_extensions
                 \<and> extension f \<in> default_project_extensions) ?fs
             = filter (\<lambda>f. extension f = ascii ''.json'') ?fs"
      by (rule filter_cong [OF refl]) (use known default_buckets neq in auto)
    have o: "filter (\<lambda>f. extension f \<notin> default_code_extensions
                 \<and> extension f \<notin> default_project_extensions) ?fs
             = filter (\<lambda>f. extension f = ascii ''.png'') ?fs"
      by (rule filter_cong [OF refl]) (use known default_buckets neq in auto)
    show ?thesis
      unfolding rule ce pe c h j o using nc nh nj np by simp
  qed
  from rule example show ?thesis by blast
qed

lemma five_files_retained:
  "filter (retained default_config) (rglob five_files)
     = [File (ascii ''main.c'') 100, File (ascii ''conf.json'') 10,
        File (ascii ''util.C'') 50, File (ascii ''util.h'') 20, File (ascii ''logo.png'') 500]"
  by (simp add: five_files_def retained_def should_ignore_file_def default_config_def
      post_init_def default_ignore_files_def ascii_def)

lemma five_files_extensions:
  "extension (File (ascii ''main.c'') 100) = ascii ''.c''"
  "extension (File (ascii ''conf.json'') 10) = ascii ''.json''"
  "extension (File (ascii ''util.C'') 50) = ascii ''.c''"
  "extension (File (ascii ''util.h'') 20) = ascii ''.h''"
  "extension (File (ascii ''logo.png'') 500) = ascii ''.png''"
  by (simp_all add: extension_def suffix_def lower_def lower_cp_def ascii_def Let_def)

theorem analyze_project_buckets_witness:
  "length (filter (retained default_config) (rglob five_files)) = 5
   \<and> code_files (stats (analyze_project (init_converter None [ascii ''/''])
        (\<lambda>p. 0) ([ascii ''/'', ascii ''Code'', ascii ''proj''], five_files))) = 2
   \<and> header_files (stats (analyze_project (init_converter None [ascii ''/''])
        (\<lambda>p. 0) ([ascii ''/'', ascii ''Code'', ascii ''proj''], five_files))) = 1
   \<and> project_files (stats (analyze_project (init_converter None [ascii ''/''])
        (\<lambda>p. 0) ([ascii ''/'', ascii ''Code'', ascii ''proj''], five_files))) = 1
   \<and> other_files (stats (analyze_project (init_converter None [ascii ''/''])
        (\<lambda>p. 0) ([ascii ''/'', ascii ''Code'', ascii ''proj''], five_files))) = 1"
proof -
  have cfg: "config (init_converter None [ascii ''/'']) = default_config"
    by (simp add: init_converter_def)
  have sets: "code_extensions default_config = default_code_extensions"
    "project_extensions default_config = default_project_extensions"
    by (simp_all add: default_config_def post_init_def)
  have neq: "ascii ''.c'' \<noteq> ascii ''.h''" "ascii ''.c'' \<noteq> ascii ''.json''"
    "ascii ''.c'' \<noteq> ascii ''.png''" "ascii ''.h'' \<noteq> ascii ''.json''"
    "ascii ''.h'' \<noteq> ascii ''.png''" "ascii ''.json'' \<noteq> ascii ''.png''"
    by (simp_all add: ascii_def)
  have hyps:
    "length (filter (retained default_config) (rglob five_files)) = 5"
    "length (filter (\<lambda>f. extension f = ascii ''.c'')
        (filter (retained default_config) (rglob five_files))) = 2"
    "length (filter (\<lambda>f. extension f = ascii ''.h'')
        (filter (retained default_config) (rglob five_files))) = 1"
    "length (filter (\<lambda>f. extension f = ascii ''.json'')
        (filter (retained default_config) (rglob five_files))) = 1"
    "length (filter (\<lambda>f. extension f = ascii ''.png'')
        (filter (retained default_config) (rglob five_files))) = 1"
    unfolding five_files_retained using neq by (simp_all add: five_files_extensions)
  show ?thesis
    using analyze_project_buckets [of "init_converter None [ascii ''/'']" "\<lambda>p. 0"
        "[ascii ''/'', ascii ''Code'', ascii ''proj'']" five_files] hyps sets
    unfolding cfg by simp
qed

lemma counted_total:
  "length (filter (\<lambda>f. retained c f \<and> extension f \<in> code_extensions c
                         \<and> extension f \<notin> header_extensions) items)
   + length (filter (\<lambda>f. retained c f \<and> extension f \<in> code_extensions c
                         \<and> extension f \<in> header_extensions) items)
   + length (filter (\<lambda>f. retained c f \<and> extension f \<notin> code_extensions c
                         \<and> extension f \<in> project_extensions c) items)
   + length (filter (\<lambda>f. retained c f \<and> extension f \<notin> code_extensions c
                         \<and> extension f \<notin> project_extensions c) items)
   = length (filter (retained c) items)"
  by (induction items) auto

lemma analyze_step_ignore_dirs:
  "analyze_step (c\<lparr>ignore_dirs := X\<rparr>) st f = analyze_step c st f"
  by (cases f) (simp_all add: Let_def)

lemma tree_of_ignored_dir:
  "d \<in> ignore_ds \<Longrightarrow> 0 < max_depth \<Longrightarrow>
     generate_tree_structure (Dir p [Dir d sub]) ignore_ds ignore_fs max_depth 0 = []"
  by (subst generate_tree_structure.simps)
     (simp add: should_ignore_dir_def sort_items_def)

text \<open>
  Claim C10. \<^verbatim>\<open>analyze_project\<close> never consults the directory ignore set: its statistics
  do not change when \<open>ignore_dirs\<close> is replaced by any other set. It counts every file
  that \<^verbatim>\<open>rglob\<close> yields and whose name matches no ignore pattern, and adds up their
  sizes; \<^verbatim>\<open>rglob\<close> yields every file at any depth. So a retained file below an
  ignored directory \<open>d\<close> of the project is among the files counted, although the tree
  renderer shows nothing of \<open>d\<close> and the discovery descent skips \<open>d\<close>.
\<close>

theorem analyze_project_counts_inside_ignored_dirs:
  "stats (analyze_project (self\<lparr>config := (config self)\<lparr>ignore_dirs := X\<rparr>\<rparr>) clock (p, project))
     = stats (analyze_project self clock (p, project))
   \<and> code_files (stats (analyze_project self clock (p, project)))
       + header_files (stats (analyze_project self clock (p, project)))
       + project_files (stats (analyze_project self clock (p, project)))
       + other_files (stats (analyze_project self clock (p, project)))
     = length (filter (retained (config self)) (rglob project))
   \<and> total_size (stats (analyze_project self clock (p, project)))
     = sum_list (map file_size (filter (retained (config self)) (rglob project)))
   \<and> {f \<in> set (rglob project). is_file f} = set (files_below project)
   \<and> (d \<in> ignore_dirs (config self) \<and> Dir d sub \<in> set cs \<and> f \<in> set (files_below (Dir d sub))
        \<and> retained (config self) f
      \<longrightarrow> f \<in> set (filter (retained (config self)) (rglob (Dir n cs))))
   \<and> (d \<in> ignore_dirs (config self) \<and> 0 < max_depth
      \<longrightarrow> generate_tree_structure (Dir n [Dir d sub]) (ignore_dirs (config self))
            (ignore_files (config self)) max_depth 0 = []
          \<and> find_in_subdirs self q [Dir d sub] = Inr [])"
proof -
  let ?c = "config self"
  let ?st = "stats (analyze_project self clock (p, project))"
  have st: "?st = foldl (analyze_step ?c) empty_stats (rglob project)"
    by (simp add: analyze_project_def analyze_stats_def Let_def)
  have a: "stats (analyze_project (self\<lparr>config := ?c\<lparr>ignore_dirs := X\<rparr>\<rparr>) clock (p, project)) = ?st"
  proof -
    have "analyze_step (?c\<lparr>ignore_dirs := X\<rparr>) = analyze_step ?c"
      by (intro ext) (rule analyze_step_ignore_dirs)
    then show ?thesis
      by (simp add: analyze_project_def analyze_stats_def Let_def)
  qed
  have b: "code_files ?st + header_files ?st + project_files ?st + other_files ?st
             = length (filter (retained ?c) (rglob project))"
    unfolding st using counted_total [of ?c "rglob project"]
    by (simp add: analyze_fold_fields empty_stats_def)
  have c: "total_size ?st = sum_list (map file_size (filter (retained ?c) (rglob project)))"
    unfolding st by (simp add: analyze_fold_fields empty_stats_def)
  have d: "{f \<in> set (rglob project). is_file f} = set (files_below project)"
    by (rule files_of_rglob)
  have e: "f \<in> set (filter (retained ?c) (rglob (Dir n cs)))"
    if "Dir d sub \<in> set cs" "f \<in> set (files_below (Dir d sub))" "retained ?c f"
  proof -
    have "f \<in> set (files_below (Dir n cs))"
      using that(1,2) files_below_child by blast
    then have "f \<in> set (rglob (Dir n cs))"
      using files_of_rglob [of "Dir n cs"] by blast
    then show ?thesis using that(3) by simp
  qed
  have g: "generate_tree_structure (Dir n [Dir d sub]) (ignore_dirs ?c) (ignore_files ?c)
             max_depth 0 = []
           \<and> find_in_subdirs self q [Dir d sub] = Inr []"
    if "d \<in> ignore_dirs ?c" "0 < max_depth"
    using that tree_of_ignored_dir [OF that] by (simp add: should_ignore_dir_def)
  from a b c d e g show ?thesis by blast
qed

theorem analyze_project_counts_inside_ignored_dirs_witness:
  "File (ascii ''index.js'') 40
     \<in> set (filter (retained default_config) (rglob with_node_modules))
   \<and> total_size (stats (analyze_project (init_converter None [ascii ''/'']) (\<lambda>p. 0)
        ([ascii ''/'', ascii ''Code'', ascii ''proj''], with_node_modules))) = 40
   \<and> generate_tree_structure with_node_modules default_ignore_dirs default_ignore_files 10 0 = []"
proof -
  have cfg: "config (init_converter None [ascii ''/'']) = default_config"
    by (simp add: init_converter_def)
  have ig: "ignore_dirs default_config = default_ignore_dirs"
    "ignore_files default_config = default_ignore_files"
    by (simp_all add: default_config_def post_init_def)
  have h1: "ascii ''node_modules'' \<in> ignore_dirs default_config"
    by (simp add: ig default_ignore_dirs_def)
  have h2: "retained default_config (File (ascii ''index.js'') 40)"
    by (simp add: retained_def should_ignore_file_def ig default_ignore_files_def ascii_def)
  have h3: "File (ascii ''index.js'') 40
     \<in> set (files_below (Dir (ascii ''node_modules'') [Dir (ascii ''lib'') [File (ascii ''index.js'') 40]]))"
    by simp
  have rg: "filter (retained default_config) (rglob with_node_modules) = [File (ascii ''index.js'') 40]"
    using h2 by (simp add: with_node_modules_def retained_def)
  note t = analyze_project_counts_inside_ignored_dirs
    [where self = "init_converter None [ascii ''/'']" and X = "{}" and clock = "\<lambda>p. 0"
       and p = "[ascii ''/'', ascii ''Code'', ascii ''proj'']" and project = with_node_modules
       and d = "ascii ''node_modules''"
       and sub = "[Dir (ascii ''lib'') [File (ascii ''index.js'') 40]]"
       and cs = "[Dir (ascii ''node_modules'') [Dir (ascii ''lib'') [File (ascii ''index.js'') 40]]]"
       and f = "File (ascii ''index.js'') 40" and n = "ascii ''proj''" and max_depth = 10
       and q = "[]"]
  show ?thesis
    using t h1 h2 h3 unfolding cfg ig rg by (simp add: with_node_modules_def)
qed

subsection \<open>The index\<close>

lemma index_entries_map:
  "index_entries ps lines =
     lines @ map (\<lambda>p. ascii ''- ['' @ name p @ ascii '']('' @ normalize_project_name (name p)
                        @ ascii ''.md'' @ ascii '')'') ps"
  by (induction ps arbitrary: lines) (auto simp: Let_def)

text \<open>
  Claim C3 gives \<^verbatim>\<open>alpha.md\<close> as the link of the project named "Alpha". The source
  builds the link from \<^verbatim>\<open>normalize_project_name(project.name)\<close>, which only strips a
  date suffix and leaves the case as it is: the link is \<^verbatim>\<open>Alpha.md\<close>.
\<close>

theorem generate_index_keeps_case_counterexample:
  "index_lines (ascii ''2024-01-01 00:00:00'') [project_named (ascii ''Beta''), project_named (ascii ''Alpha'')]
     = [index_title, [], index_time_label @ ascii ''2024-01-01 00:00:00'',
        index_count_label @ ascii ''2'', [], index_list_heading, [],
        ascii ''- [Alpha](Alpha.md)'', ascii ''- [Beta](Beta.md)'', []]
   \<and> ascii ''- [Alpha](alpha.md)''
       \<notin> set (index_lines (ascii ''2024-01-01 00:00:00'')
                 [project_named (ascii ''Beta''), project_named (ascii ''Alpha'')])"
  by (simp add: index_lines_def index_entries_map project_named_def normalize_project_name_def
      date_suffix_def str_int_def str_nat.simps ascii_def Let_def index_title_def
      index_time_label_def index_count_label_def index_list_heading_def)

text \<open>
  Claim C3, amended. \<^verbatim>\<open>generate_index\<close> emits a single document: five heading lines
  and, when there is a project, a list heading and one bullet per project, in the order
  of the project names; the link target of a bullet is exactly the project's normalized
  name followed by \<^verbatim>\<open>.md\<close>, which is the file name \<^verbatim>\<open>analyze_project\<close> gives the
  project's document. The case of the name is kept: for two projects named "Alpha" and
  "Beta" the links are \<^verbatim>\<open>Alpha.md\<close> and \<^verbatim>\<open>Beta.md\<close>.
\<close>

theorem generate_index_links:
  "index_lines timestamp projects
     = [index_title, [], index_time_label @ timestamp,
        index_count_label @ str_int (int (length projects)), []]
       @ (if projects = [] then []
          else [index_list_heading, []]
               @ map (\<lambda>p. ascii ''- ['' @ name p @ ascii '']('' @ normalize_project_name (name p)
                             @ ascii ''.md'' @ ascii '')'') (sort_key name projects)
               @ [[]])
   \<and> sorted (map name (sort_key name projects))
   \<and> set (sort_key name projects) = set projects
   \<and> length (sort_key name projects) = length projects
   \<and> last (target_path (analyze_project self clock proj))
     = normalize_project_name (name (analyze_project self clock proj)) @ ascii ''.md''
   \<and> index_lines timestamp [project_named (ascii ''Beta''), project_named (ascii ''Alpha'')]
     = [index_title, [], index_time_label @ timestamp, index_count_label @ ascii ''2'', [],
        index_list_heading, [], ascii ''- [Alpha](Alpha.md)'', ascii ''- [Beta](Beta.md)'', []]"
proof -
  have a: "index_lines timestamp projects
     = [index_title, [], index_time_label @ timestamp,
        index_count_label @ str_int (int (length projects)), []]
       @ (if projects = [] then []
          else [index_list_heading, []]
               @ map (\<lambda>p. ascii ''- ['' @ name p @ ascii '']('' @ normalize_project_name (name p)
                             @ ascii ''.md'' @ ascii '')'') (sort_key name projects)
               @ [[]])"
    by (simp add: index_lines_def index_entries_map Let_def)
  have b: "sorted (map name (sort_key name projects))"
    by (rule sorted_sort_key)
  have c: "set (sort_key name projects) = set projects"
    "length (sort_key name projects) = length projects"
    by simp_all
  have d: "last (target_path (analyze_project self clock proj))
     = normalize_project_name (name (analyze_project self clock proj)) @ ascii ''.md''"
    by (simp add: analyze_project_def Let_def)
  have e: "index_lines timestamp [project_named (ascii ''Beta''), project_named (ascii ''Alpha'')]
     = [index_title, [], index_time_label @ timestamp, index_count_label @ ascii ''2'', [],
        index_list_heading, [], ascii ''- [Alpha](Alpha.md)'', ascii ''- [Beta](Beta.md)'', []]"
    by (simp add: index_lines_def index_entries_map project_named_def normalize_project_name_def
        date_suffix_def str_int_def str_nat.simps ascii_def Let_def)
  from a b c d e show ?thesis by blast
qed

theorem generate_index_links_witness:
  "index_lines (ascii ''now'') [project_named (ascii ''Foo_20230615'')]
     = [index_title, [], index_time_label @ ascii ''now'', index_count_label @ ascii ''1'', [],
        index_list_heading, [], ascii ''- [Foo_20230615](Foo.md)'', []]
   \<and> last (target_path (analyze_project (init_converter None [ascii ''/''])
               (\<lambda>p. 0) ([ascii ''/'', ascii ''Code'', ascii ''Foo_20230615''], Dir (ascii ''Foo_20230615'') [])))
     = ascii ''Foo.md''"
proof -
  have n: "normalize_project_name (ascii ''Foo_20230615'') = ascii ''Foo''"
    by (simp add: normalize_project_name_def date_suffix_def is_digit_def ascii_def)
  have e: "extract_project_name_from_path [ascii ''/'', ascii ''Code'', ascii ''Foo_20230615'']
             = ascii ''Foo_20230615''"
    by (simp add: extract_project_name_from_path_def startswith_def ascii_def Let_def)
  have an: "name (analyze_project (init_converter None [ascii ''/''])
               (\<lambda>p. 0) ([ascii ''/'', ascii ''Code'', ascii ''Foo_20230615''], Dir (ascii ''Foo_20230615'') []))
            = ascii ''Foo_20230615''"
    using e by (simp add: analyze_project_def Let_def)
  note t = generate_index_links [where timestamp = "ascii ''now''"
      and projects = "[project_named (ascii ''Foo_20230615'')]"
      and self = "init_converter None [ascii ''/'']" and clock = "\<lambda>p. 0"
      and proj = "([ascii ''/'', ascii ''Code'', ascii ''Foo_20230615''], Dir (ascii ''Foo_20230615'') [])"]
  have s1: "str_int 1 = ascii ''1''"
    by (simp add: str_int_def str_nat.simps ascii_def)
  show ?thesis
    using t unfolding an n by (simp add: project_named_def n s1) (simp add: ascii_def)
qed

subsection \<open>The content reader\<close>

text \<open>
  Claim C5. For every file whose size, as \<^verbatim>\<open>stat\<close> reports it, is strictly greater
  than the maximum, \<^verbatim>\<open>read_file_safely\<close> returns the placeholder made of the
  too-large notice and the formatted file size, and makes no \<^verbatim>\<open>open\<close> call.
\<close>

theorem read_file_safely_too_large:
  "stat_size f = Some sz \<and> max_size < int sz \<longrightarrow>
     read_file_safely dec lossy f max_size
       = (ascii ''['' @ [0x6587, 0x4EF6, 0x8FC7, 0x5927] @ ascii '' (''
            @ format_file_size (int sz) @ ascii ''), ''
            @ [0x8DF3, 0x8FC7, 0x663E, 0x793A, 0x5185, 0x5BB9] @ ascii '']'', [])"
  by (simp add: read_file_safely_def get_file_info_def too_large_notice_def Let_def)

lemma two_megabytes: "format_file_size 2097152 = ascii ''2.0 MB''"
  by (simp add: format_file_size_def ascii_def size_names_def format_1f_def
      round_half_even_def str_int_def str_nat.simps scale_loop.simps)

theorem read_file_safely_too_large_witness:
  "read_file_safely (\<lambda>enc bytes. Some bytes) (\<lambda>bytes. bytes)
     \<lparr>stat_size = Some 2097152, opened = Inr [104, 105]\<rparr> (1024 * 1024)
     = (ascii ''['' @ [0x6587, 0x4EF6, 0x8FC7, 0x5927] @ ascii '' (2.0 MB), ''
          @ [0x8DF3, 0x8FC7, 0x663E, 0x793A, 0x5185, 0x5BB9] @ ascii '']'', [])
   \<and> read_file_safely (\<lambda>enc bytes. Some bytes) (\<lambda>bytes. bytes)
     \<lparr>stat_size = Some 2, opened = Inr [104, 105]\<rparr> (1024 * 1024) = ([104, 105], [UTF8])"
proof -
  have small: "read_file_safely (\<lambda>enc bytes. Some bytes) (\<lambda>bytes. bytes)
     \<lparr>stat_size = Some 2, opened = Inr [104, 105]\<rparr> (1024 * 1024) = ([104, 105], [UTF8])"
    by (simp add: read_file_safely_def get_file_info_def encodings_def clean_text_content_def
        in_strip_class_def replacements_def replace_def Let_def)
  show ?thesis
    using read_file_safely_too_large [where f = "\<lparr>stat_size = Some 2097152, opened = Inr [104, 105]\<rparr>"
        and sz = 2097152 and max_size = "1024 * 1024" and dec = "\<lambda>enc bytes. Some bytes"
        and lossy = "\<lambda>bytes. bytes"] small two_megabytes
    by (simp add: ascii_def)
qed

lemma replacements_table:
  "replacements =
     [([0x01A3], [0x51FD, 0x6570, 0x540D, 0xFF1A]),
      ([0x0723], [0x529F, 0x80FD, 0xFF1A]),
      ([0x06B2], [0x8FD4, 0x56DE, 0x503C, 0xFF1A])]"
  by (simp add: replacements_def)

lemma replace_single:
  "replace s [k] new = concat (map (\<lambda>c. if c = k then new else [c]) s)"
proof -
  have "replace_scan s [k] new = concat (map (\<lambda>c. if c = k then new else [c]) s)"
    by (induction s) auto
  then show ?thesis by (simp add: replace_def)
qed

lemma table_char_cases:
  "table_char c =
     (if c = 0x01A3 then [0x51FD, 0x6570, 0x540D, 0xFF1A]
      else if c = 0x0723 then [0x529F, 0x80FD, 0xFF1A]
      else if c = 0x06B2 then [0x8FD4, 0x56DE, 0x503C, 0xFF1A]
      else [c])"
  by (simp add: table_char_def replacements_table)

lemma three_replacements:
  "replace (replace (replace s [0x01A3] [0x51FD, 0x6570, 0x540D, 0xFF1A])
              [0x0723] [0x529F, 0x80FD, 0xFF1A])
     [0x06B2] [0x8FD4, 0x56DE, 0x503C, 0xFF1A]
   = concat (map table_char s)"
  unfolding replace_single table_char_cases
  by (induction s) auto

lemma clean_text_content_table:
  "clean_text_content s = concat (map table_char (filter (\<lambda>c. \<not> in_strip_class c) s))"
  using three_replacements [of "filter (\<lambda>c. \<not> in_strip_class c) s"]
  by (simp add: clean_text_content_def replacements_table Let_def)

lemma kept_controls:
  "c0_c1_control c \<Longrightarrow> \<not> in_strip_class c \<Longrightarrow> c = 9 \<or> c = 10 \<or> c = 13"
  unfolding c0_c1_control_def in_strip_class_def by presburger

lemma table_char_controls:
  "x \<in> set (table_char c) \<Longrightarrow> c0_c1_control x \<Longrightarrow> x = c"
  unfolding table_char_cases c0_c1_control_def by (auto split: if_splits)

lemma clean_controls:
  assumes "x \<in> set (clean_text_content s)" "c0_c1_control x"
  shows "x \<in> set s \<and> (x = 9 \<or> x = 10 \<or> x = 13)"
proof -
  from assms(1) obtain c where c: "c \<in> set s" "\<not> in_strip_class c" "x \<in> set (table_char c)"
    unfolding clean_text_content_table by auto
  have "x = c" using table_char_controls [OF c(3) assms(2)] .
  then show ?thesis using c kept_controls assms(2) by blast
qed

lemma universal_newlines_no_cr: "13 \<notin> set (universal_newlines s)"
  by (induction s rule: universal_newlines.induct) auto

lemma try_encodings_shape:
  "\<exists>decoded. fst (try_encodings dec lossy bytes encs opens)
            = clean_text_content (universal_newlines decoded)"
  by (induction encs arbitrary: opens) (auto split: option.splits)

text \<open>
  Claim C4 says that the sanitizer removes every C0/C1 control character other than
  space, tab and newline. The character class of the source leaves out \<^verbatim>\<open>\x0D\<close> as
  well as \<^verbatim>\<open>\x09\<close> and \<^verbatim>\<open>\x0A\<close>: a carriage return is a C0 control character and
  \<^verbatim>\<open>clean_text_content\<close> keeps it.
\<close>

theorem clean_text_content_keeps_cr_counterexample:
  "c0_c1_control 13 \<and> (13::nat) \<notin> {32, 9, 10}
   \<and> clean_text_content [65, 13, 66] = [65, 13, 66]"
  by (simp add: c0_c1_control_def clean_text_content_table table_char_cases in_strip_class_def)

text \<open>
  Claim C4, amended. For every input string, \<^verbatim>\<open>clean_text_content\<close> removes every
  C0/C1 control character other than tab, newline and carriage return (which it keeps),
  and replaces each key of the table (U+01A3, U+0723 and U+06B2, the last with the label
  of its second entry) by its label, leaving every other character as it is. No
  successfully decoded text returned by \<^verbatim>\<open>read_file_safely\<close> contains a C0/C1 control
  character other than tab or newline: reading in text mode has turned every carriage
  return into a newline before the sanitizer runs.
\<close>

theorem clean_text_content_controls:
  "(\<forall>x \<in> set (clean_text_content s). c0_c1_control x \<longrightarrow> x = 9 \<or> x = 10 \<or> x = 13)
   \<and> (\<forall>x \<in> set s. x = 9 \<or> x = 10 \<or> x = 13 \<longrightarrow> x \<in> set (clean_text_content s))
   \<and> clean_text_content s = concat (map table_char (filter (\<lambda>c. \<not> in_strip_class c) s))
   \<and> map fst replacements = [[0x01A3], [0x0723], [0x06B2]]
   \<and> (int (get_file_info f) \<le> max_size \<and> opened f = Inr bytes \<longrightarrow>
        (\<forall>x \<in> set (fst (read_file_safely dec lossy f max_size)).
           c0_c1_control x \<longrightarrow> x = 9 \<or> x = 10))"
proof -
  have a: "\<forall>x \<in> set (clean_text_content s). c0_c1_control x \<longrightarrow> x = 9 \<or> x = 10 \<or> x = 13"
    using clean_controls by blast
  have b: "\<forall>x \<in> set s. x = 9 \<or> x = 10 \<or> x = 13 \<longrightarrow> x \<in> set (clean_text_content s)"
  proof (intro ballI impI)
    fix x assume x: "x \<in> set s" "x = 9 \<or> x = 10 \<or> x = 13"
    have "\<not> in_strip_class x" using x(2) by (auto simp: in_strip_class_def)
    moreover have "table_char x = [x]" using x(2) by (auto simp: table_char_cases)
    ultimately show "x \<in> set (clean_text_content s)"
      unfolding clean_text_content_table using x(1) by force
  qed
  have c: "clean_text_content s = concat (map table_char (filter (\<lambda>c. \<not> in_strip_class c) s))"
    by (rule clean_text_content_table)
  have d: "map fst replacements = [[0x01A3], [0x0723], [0x06B2]]"
    by (simp add: replacements_table)
  have e: "\<forall>x \<in> set (fst (read_file_safely dec lossy f max_size)).
             c0_c1_control x \<longrightarrow> x = 9 \<or> x = 10"
    if h: "int (get_file_info f) \<le> max_size" "opened f = Inr bytes"
  proof (intro ballI impI)
    fix x
    assume x: "x \<in> set (fst (read_file_safely dec lossy f max_size))" "c0_c1_control x"
    have r: "read_file_safely dec lossy f max_size = try_encodings dec lossy bytes encodings []"
      using h by (simp add: read_file_safely_def Let_def)
    obtain decoded where t: "fst (read_file_safely dec lossy f max_size)
                            = clean_text_content (universal_newlines decoded)"
      unfolding r using try_encodings_shape by blast
    have "x \<in> set (universal_newlines decoded) \<and> (x = 9 \<or> x = 10 \<or> x = 13)"
      using clean_controls x unfolding t by blast
    then show "x = 9 \<or> x = 10" using universal_newlines_no_cr [of decoded] by auto
  qed
  from a b c d e show ?thesis by blast
qed

theorem clean_text_content_controls_witness:
  "clean_text_content [65, 13, 7, 0x06B2, 0x85, 9]
     = [65, 13, 0x8FD4, 0x56DE, 0x503C, 0xFF1A, 9]
   \<and> fst (read_file_safely (\<lambda>enc bytes. Some bytes) (\<lambda>bytes. bytes)
           \<lparr>stat_size = Some 6, opened = Inr [65, 13, 10, 66, 13, 7]\<rparr> 100) = [65, 10, 66, 10]
   \<and> 13 \<notin> set (fst (read_file_safely (\<lambda>enc bytes. Some bytes) (\<lambda>bytes. bytes)
           \<lparr>stat_size = Some 6, opened = Inr [65, 13, 10, 66, 13, 7]\<rparr> 100))"
proof -
  note t = clean_text_content_controls [where s = "[65, 13, 7, 0x06B2, 0x85, 9]"
      and f = "\<lparr>stat_size = Some 6, opened = Inr [65, 13, 10, 66, 13, 7]\<rparr>" and max_size = 100
      and bytes = "[65, 13, 10, 66, 13, 7]" and dec = "\<lambda>enc bytes. Some bytes"
      and lossy = "\<lambda>bytes. bytes"]
  have c: "clean_text_content [65, 13, 7, 0x06B2, 0x85, 9]
     = [65, 13, 0x8FD4, 0x56DE, 0x503C, 0xFF1A, 9]"
    using t by (simp add: table_char_cases in_strip_class_def)
  have hyp: "int (get_file_info \<lparr>stat_size = Some 6, opened = Inr [65, 13, 10, 66, 13, 7]\<rparr>) \<le> 100"
    by (simp add: get_file_info_def)
  have r: "fst (read_file_safely (\<lambda>enc bytes. Some bytes) (\<lambda>bytes. bytes)
           \<lparr>stat_size = Some 6, opened = Inr [65, 13, 10, 66, 13, 7]\<rparr> 100) = [65, 10, 66, 10]"
    by (simp add: read_file_safely_def get_file_info_def encodings_def
        clean_text_content_table table_char_cases in_strip_class_def Let_def)
  have "13 \<notin> set (fst (read_file_safely (\<lambda>enc bytes. Some bytes) (\<lambda>bytes. bytes)
           \<lparr>stat_size = Some 6, opened = Inr [65, 13, 10, 66, 13, 7]\<rparr> 100))"
    using t hyp by (auto simp: c0_c1_control_def)
  with c r show ?thesis by blast
qed

subsection \<open>The tree renderer\<close>

lemma tree_of_directory:
  "current_depth < max_depth \<Longrightarrow>
   generate_tree_structure (Dir n cs) ignore_ds ignore_fs max_depth current_depth =
     (let items = sort_items (collect_items ignore_ds ignore_fs cs)
      in concat
           (map (\<lambda>(i, item, isdir).
                   if isdir then
                     entry_text (length items) (i, item, isdir)
                       # map (\<lambda>line. (if i = length items - 1 then last_child_prefix
                                        else middle_child_prefix) @ line)
                           (generate_tree_structure item ignore_ds ignore_fs max_depth
                              (current_depth + 1))
                   else [entry_text (length items) (i, item, isdir)])
              (enumerate 0 items)))"
  by (subst generate_tree_structure.simps)
     (auto simp: Let_def entry_text_def intro!: arg_cong [where f = concat])

lemma entry_text_is_entry: "is_entry_line (entry_text n x)"
  by (cases x) (simp add: is_entry_line_def entry_text_def last_prefix_def middle_prefix_def)

lemma child_line_is_no_entry:
  "\<not> is_entry_line (last_child_prefix @ l)" "\<not> is_entry_line (middle_child_prefix @ l)"
  by (simp_all add: is_entry_line_def last_child_prefix_def middle_child_prefix_def ascii_def)

lemma entries_of_blocks:
  "filter is_entry_line
     (concat (map (\<lambda>(i, item, isdir).
                   if isdir then
                     entry_text m (i, item, isdir)
                       # map (\<lambda>line. (if i = m - 1 then last_child_prefix
                                        else middle_child_prefix) @ line) (sub i item)
                   else [entry_text m (i, item, isdir)]) xs))
   = map (entry_text m) xs"
proof (induction xs)
  case Nil
  then show ?case by simp
next
  case (Cons x xs)
  obtain i item isdir where x: "x = (i, item, isdir)" by (cases x)
  have "filter is_entry_line
          (map (\<lambda>line. (if i = m - 1 then last_child_prefix else middle_child_prefix) @ line)
             (sub i item)) = []"
    by (simp add: filter_empty_conv child_line_is_no_entry)
  then show ?case using Cons x by (simp add: entry_text_is_entry)
qed

lemma collect_items_flags:
  "x \<in> set (collect_items ignore_ds ignore_fs cs) \<Longrightarrow> snd x = is_dir (fst x)"
  by (induction cs) (auto split: if_splits, (case_tac a; simp)+)

lemma collect_items_set:
  "fst ` set (collect_items ignore_ds ignore_fs cs) =
     {c \<in> set cs. (is_dir c \<and> \<not> should_ignore_dir (name_of c) ignore_ds)
                  \<or> (is_file c \<and> \<not> should_ignore_file (name_of c) ignore_fs)}"
  by (induction cs) (auto split: if_splits)

lemma sort_items_order:
  "sorted_wrt (\<lambda>a b. (snd a \<and> \<not> snd b)
                     \<or> (snd a = snd b \<and> lower (name_of (fst a)) \<le> lower (name_of (fst b))))
     (sort_items items)"
proof -
  have "sorted (map (\<lambda>x. (\<not> snd x, lower (name_of (fst x)))) (sort_items items))"
    unfolding sort_items_def by (rule sorted_sort_key)
  then have "sorted_wrt (\<lambda>a b. (\<not> snd a, lower (name_of (fst a)))
                               \<le> (\<not> snd b, lower (name_of (fst b)))) (sort_items items)"
    by (simp add: sorted_map)
  then show ?thesis
    by (rule sorted_wrt_mono_rel [rotated]) (auto simp: less_eq_prod_def)
qed

lemma contents_of_blocks:
  "filter (\<lambda>l. \<not> is_entry_line l)
     (concat (map (\<lambda>(i, item, isdir).
                   if isdir then
                     entry_text m (i, item, isdir)
                       # map (\<lambda>line. (if i = m - 1 then last_child_prefix
                                        else middle_child_prefix) @ line) (sub i item)
                   else [entry_text m (i, item, isdir)]) xs))
   = concat (map (\<lambda>(i, item, isdir).
                   if isdir then
                     map (\<lambda>line. (if i = m - 1 then last_child_prefix
                                    else middle_child_prefix) @ line) (sub i item)
                   else []) xs)"
proof (induction xs)
  case Nil
  then show ?case by simp
next
  case (Cons x xs)
  obtain i item isdir where x: "x = (i, item, isdir)" by (cases x)
  have "filter (\<lambda>l. \<not> is_entry_line l)
          (map (\<lambda>line. (if i = m - 1 then last_child_prefix else middle_child_prefix) @ line)
             (sub i item))
        = map (\<lambda>line. (if i = m - 1 then last_child_prefix else middle_child_prefix) @ line)
             (sub i item)"
    by (simp add: filter_id_conv child_line_is_no_entry)
  then show ?case using Cons x by (simp add: entry_text_is_entry)
qed

text \<open>
  Claim C8. Take a directory rendered below the depth cap, and the entries the renderer
  keeps of it, in the order it lists them. They are ordered directories first and, among
  directories and among files, by lower-cased name. The lines of the entries themselves
  are, in that order, the connector, the name and, for a directory, a slash; the
  connector is \<open>last_prefix\<close> (U+2514 U+2500 U+2500 and a space) for the last entry and
  \<open>middle_prefix\<close> (U+251C U+2500 U+2500 and a space) for the earlier ones. All other
  lines are the renderings of the subdirectories, one level deeper and indented, so the
  same holds at every level. For a directory with one subfolder A and one file b.txt,
  \<^verbatim>\<open>A/\<close> is listed before \<^verbatim>\<open>b.txt\<close>.
\<close>

theorem generate_tree_structure_levels:
  "(current_depth < max_depth \<longrightarrow>
      sorted_wrt (\<lambda>a b. (snd a \<and> \<not> snd b)
                     \<or> (snd a = snd b \<and> lower (name_of (fst a)) \<le> lower (name_of (fst b))))
        (sort_items (collect_items ignore_ds ignore_fs cs))
      \<and> (\<forall>x \<in> set (sort_items (collect_items ignore_ds ignore_fs cs)). snd x = is_dir (fst x))
      \<and> fst ` set (sort_items (collect_items ignore_ds ignore_fs cs))
          = {c \<in> set cs. (is_dir c \<and> \<not> should_ignore_dir (name_of c) ignore_ds)
                         \<or> (is_file c \<and> \<not> should_ignore_file (name_of c) ignore_fs)}
      \<and> filter is_entry_line
           (generate_tree_structure (Dir n cs) ignore_ds ignore_fs max_depth current_depth)
          = map (\<lambda>(i, item, isdir).
                   (if i = length (sort_items (collect_items ignore_ds ignore_fs cs)) - 1
                    then last_prefix else middle_prefix)
                   @ name_of item @ (if isdir then ascii ''/'' else []))
              (enumerate 0 (sort_items (collect_items ignore_ds ignore_fs cs)))
      \<and> filter (\<lambda>l. \<not> is_entry_line l)
           (generate_tree_structure (Dir n cs) ignore_ds ignore_fs max_depth current_depth)
          = concat (map (\<lambda>(i, item, isdir).
                   if isdir then
                     map (\<lambda>line.
                            (if i = length (sort_items (collect_items ignore_ds ignore_fs cs)) - 1
                             then last_child_prefix else middle_child_prefix) @ line)
                       (generate_tree_structure item ignore_ds ignore_fs max_depth
                          (current_depth + 1))
                   else [])
              (enumerate 0 (sort_items (collect_items ignore_ds ignore_fs cs)))))
   \<and> generate_tree_structure
        (Dir (ascii ''d'') [File (ascii ''b.txt'') 1, Dir (ascii ''A'') []])
        default_ignore_dirs default_ignore_files 10 0
      = [[0x251C, 0x2500, 0x2500] @ ascii '' A/'', [0x2514, 0x2500, 0x2500] @ ascii '' b.txt'']"
proof -
  let ?items = "sort_items (collect_items ignore_ds ignore_fs cs)"
  let ?out = "generate_tree_structure (Dir n cs) ignore_ds ignore_fs max_depth current_depth"
  have set_items: "set ?items = set (collect_items ignore_ds ignore_fs cs)"
    by (simp add: sort_items_def)
  have a: "sorted_wrt (\<lambda>a b. (snd a \<and> \<not> snd b)
                     \<or> (snd a = snd b \<and> lower (name_of (fst a)) \<le> lower (name_of (fst b))))
        ?items"
    by (rule sort_items_order)
  have b: "\<forall>x \<in> set ?items. snd x = is_dir (fst x)"
    unfolding set_items using collect_items_flags by blast
  have c: "fst ` set ?items
          = {c \<in> set cs. (is_dir c \<and> \<not> should_ignore_dir (name_of c) ignore_ds)
                         \<or> (is_file c \<and> \<not> should_ignore_file (name_of c) ignore_fs)}"
    unfolding set_items by (rule collect_items_set)
  have et: "entry_text (length ?items)
              = (\<lambda>(i, item, isdir). (if i = length ?items - 1 then last_prefix else middle_prefix)
                   @ name_of item @ (if isdir then ascii ''/'' else []))"
    by (intro ext) (simp add: entry_text_def split: prod.splits)
  have d: "filter is_entry_line ?out
          = map (\<lambda>(i, item, isdir). (if i = length ?items - 1 then last_prefix else middle_prefix)
                   @ name_of item @ (if isdir then ascii ''/'' else []))
              (enumerate 0 ?items)"
    if "current_depth < max_depth"
  proof -
    have "filter is_entry_line ?out = map (entry_text (length ?items)) (enumerate 0 ?items)"
      by (simp only: tree_of_directory [OF that] Let_def entries_of_blocks)
    then show ?thesis unfolding et .
  qed
  have e: "filter (\<lambda>l. \<not> is_entry_line l) ?out
          = concat (map (\<lambda>(i, item, isdir).
                   if isdir then
                     map (\<lambda>line. (if i = length ?items - 1
                             then last_child_prefix else middle_child_prefix) @ line)
                       (generate_tree_structure item ignore_ds ignore_fs max_depth
                          (current_depth + 1))
                   else [])
              (enumerate 0 ?items))"
    if "current_depth < max_depth"
    by (simp only: tree_of_directory [OF that] Let_def contents_of_blocks)
  have f: "generate_tree_structure
        (Dir (ascii ''d'') [File (ascii ''b.txt'') 1, Dir (ascii ''A'') []])
        default_ignore_dirs default_ignore_files 10 0
      = [[0x251C, 0x2500, 0x2500] @ ascii '' A/'', [0x2514, 0x2500, 0x2500] @ ascii '' b.txt'']"
    by (simp add: generate_tree_structure.simps sort_items_def should_ignore_dir_def
        should_ignore_file_def default_ignore_dirs_def default_ignore_files_def
        lower_def lower_cp_def less_eq_prod_def
        last_prefix_def middle_prefix_def ascii_def Let_def)
  from a b c d e f show ?thesis by blast
qed

lemma sample_level_items:
  "sort_items (collect_items default_ignore_dirs default_ignore_files sample_level)
     = [(Dir (ascii ''alpha'') [File (ascii ''x'') 1], True), (Dir (ascii ''Zeta'') [], True),
        (File (ascii ''b.txt'') 1, False)]"
  by (simp add: sample_level_def sort_items_def should_ignore_dir_def
      should_ignore_file_def default_ignore_dirs_def default_ignore_files_def
      lower_def lower_cp_def less_eq_prod_def ascii_def)

theorem generate_tree_structure_levels_witness:
  "filter is_entry_line
     (generate_tree_structure (Dir (ascii ''p'') sample_level)
        default_ignore_dirs default_ignore_files 10 0)
     = [[0x251C, 0x2500, 0x2500] @ ascii '' alpha/'', [0x251C, 0x2500, 0x2500] @ ascii '' Zeta/'',
        [0x2514, 0x2500, 0x2500] @ ascii '' b.txt'']
   \<and> filter (\<lambda>l. \<not> is_entry_line l)
     (generate_tree_structure (Dir (ascii ''p'') sample_level)
        default_ignore_dirs default_ignore_files 10 0)
     = [[0x2502] @ ascii ''   '' @ [0x2514, 0x2500, 0x2500] @ ascii '' x'']"
proof -
  have sub1: "generate_tree_structure (Dir (ascii ''alpha'') [File (ascii ''x'') 1])
                default_ignore_dirs default_ignore_files 10 (Suc 0)
              = [[0x2514, 0x2500, 0x2500] @ ascii '' x'']"
    by (simp add: generate_tree_structure.simps sort_items_def should_ignore_dir_def
        should_ignore_file_def default_ignore_dirs_def default_ignore_files_def
        lower_def lower_cp_def less_eq_prod_def last_prefix_def ascii_def Let_def)
  have sub2: "generate_tree_structure (Dir (ascii ''Zeta'') [])
                default_ignore_dirs default_ignore_files 10 (Suc 0) = []"
    by (simp add: generate_tree_structure.simps sort_items_def)
  note t = generate_tree_structure_levels [where current_depth = 0 and max_depth = 10
      and ignore_ds = default_ignore_dirs and ignore_fs = default_ignore_files
      and cs = sample_level and n = "ascii ''p''"]
  note subs = sub1 [unfolded ascii_def, simplified] sub2 [unfolded ascii_def, simplified]
  show ?thesis
    using t unfolding sample_level_items
    by (simp add: subs last_prefix_def middle_prefix_def middle_child_prefix_def
        last_child_prefix_def ascii_def)
qed

end
